theory Spec2Isabelle
  imports Main "HOL-Library.Sublist" "HOL-Library.Word"
begin

section \<open>Python values, exceptions and text\<close>

text \<open>
  The module \<^verbatim>\<open>questions.py\<close> holds one loader (\<^verbatim>\<open>get_questions\<close>), two module
  constants (\<^verbatim>\<open>questions\<close>, the corpus, and \<^verbatim>\<open>questions_generator\<close>, the registry of
  target files) and three composers (\<^verbatim>\<open>question_format\<close>, \<^verbatim>\<open>validation_format\<close>,
  \<^verbatim>\<open>question_generator\<close>), each of which returns one f-string.

  A Python \<^verbatim>\<open>str\<close> is modelled as a \<^typ>\<open>string\<close> holding its UTF-8 bytes, so that
  "byte-identical" is equality of lists and concatenation of texts is \<open>@\<close>. The
  characters of the source outside ASCII are named once, here.
\<close>

definition em_dash :: string where
  "em_dash = [CHR 0xE2, CHR 0x80, CHR 0x94]"

definition rightwards_arrow :: string where
  "rightwards_arrow = [CHR 0xE2, CHR 0x86, CHR 0x92]"

definition cross_mark :: string where
  "cross_mark = [CHR 0xE2, CHR 0x9D, CHR 0x8C]"

definition check_mark :: string where
  "check_mark = [CHR 0xE2, CHR 0x9C, CHR 0x85]"

definition triangular_flag :: string where
  "triangular_flag = [CHR 0xF0, CHR 0x9F, CHR 0x9A, CHR 0xA9]"

definition warning_sign :: string where
  "warning_sign = [CHR 0xE2, CHR 0x9A, CHR 0xA0]"

definition variation_selector_16 :: string where
  "variation_selector_16 = [CHR 0xEF, CHR 0xB8, CHR 0x8F]"

text \<open>
  The objects \<^verbatim>\<open>json.load\<close> can return, which are also the objects the module's
  global names are bound to. A float is kept as its 64-bit pattern.
\<close>

datatype pyobj =
    PyNone
  | PyBool bool
  | PyInt int
  | PyFloat "64 word"
  | PyStr string
  | PyList "pyobj list"
  | PyDict "(string \<times> pyobj) list"

text \<open>
  The exceptions of the model. \<open>OtherException\<close> stands for every exception class that
  is not named (the bare \<^verbatim>\<open>except:\<close> of the loader catches them all).
\<close>

datatype exn =
    NameError string
  | FileNotFoundError
  | PermissionError
  | IsADirectoryError
  | UnicodeDecodeError
  | JSONDecodeError
  | OtherException string

type_synonym namespace = "string \<rightharpoonup> pyobj"

section \<open>f-strings\<close>

text \<open>
  An f-string is, after parsing, a sequence of constant texts and formatted values
  (\<^verbatim>\<open>ast.JoinedStr\<close> over \<^verbatim>\<open>ast.Constant\<close> and \<^verbatim>\<open>ast.FormattedValue\<close>). Every
  formatted value of this module is a plain name with no conversion and no format
  specification, so a formatted value is kept as that name.
\<close>

datatype fstring_part = Constant string | FormattedValue string

text \<open>
  A name is looked up among the local variables of the running function, then among
  the module's globals; a name bound in neither raises \<^verbatim>\<open>NameError\<close>.
\<close>

definition load_name :: "namespace \<Rightarrow> namespace \<Rightarrow> string \<Rightarrow> exn + pyobj" where
  "load_name globals locals name =
     (case locals name of
        Some v \<Rightarrow> Inr v
      | None \<Rightarrow> (case globals name of
                   Some v \<Rightarrow> Inr v
                 | None \<Rightarrow> Inl (NameError name)))"

text \<open>
  \<^verbatim>\<open>format(v, "")\<close>: a \<^verbatim>\<open>str\<close> is inserted as it is, with no escaping. For every
  other object the result is \<^verbatim>\<open>str(v)\<close>; Python's \<^verbatim>\<open>str\<close> on those objects is a
  parameter \<open>str_of\<close> of the model.
\<close>

definition format_value :: "(pyobj \<Rightarrow> string) \<Rightarrow> pyobj \<Rightarrow> string" where
  "format_value str_of v = (case v of PyStr s \<Rightarrow> s | _ \<Rightarrow> str_of v)"

text \<open>
  The parts are evaluated from left to right and their texts concatenated; the first
  name that cannot be loaded ends the evaluation with its exception.
\<close>

primrec JoinedStr ::
  "(pyobj \<Rightarrow> string) \<Rightarrow> namespace \<Rightarrow> namespace \<Rightarrow> fstring_part list \<Rightarrow> exn + string" where
  "JoinedStr str_of globals locals [] = Inr []"
| "JoinedStr str_of globals locals (p # ps) =
     (case p of
        Constant s \<Rightarrow>
          (case JoinedStr str_of globals locals ps of
             Inl e \<Rightarrow> Inl e
           | Inr rest \<Rightarrow> Inr (s @ rest))
      | FormattedValue name \<Rightarrow>
          (case load_name globals locals name of
             Inl e \<Rightarrow> Inl e
           | Inr v \<Rightarrow>
               (case JoinedStr str_of globals locals ps of
                  Inl e \<Rightarrow> Inl e
                | Inr rest \<Rightarrow> Inr (format_value str_of v @ rest))))"

section \<open>The corpus loader and the registry\<close>

text \<open>\<^verbatim>\<open>BASE_URL\<close> (source line 3).\<close>

definition BASE_URL :: string where
  "BASE_URL = ''https://deepwiki.com/code-423n4/2025-12-rujira''"

text \<open>
  \<^verbatim>\<open>get_questions\<close> (source lines 6 to 12). The two library calls are parameters:
  \<open>open_read path\<close> is what opening \<open>path\<close> for reading and reading it to its end
  gives (its text, or the exception raised), and \<open>json_loads text\<close> is what the JSON
  decoder gives on that text (\<^verbatim>\<open>json.load(f)\<close> is \<^verbatim>\<open>json.loads(f.read())\<close>). The
  \<^verbatim>\<open>try\<close> body returns the decoded object; the bare \<^verbatim>\<open>except:\<close> turns every
  exception into the empty list. The result is a sum so that "it raises" is a value
  the function could have.
\<close>

definition get_questions ::
  "(string \<Rightarrow> exn + string) \<Rightarrow> (string \<Rightarrow> exn + pyobj) \<Rightarrow> exn + pyobj" where
  "get_questions open_read json_loads =
     (case (case open_read ''all_questions.json'' of
              Inl e \<Rightarrow> Inl e
            | Inr f \<Rightarrow> json_loads f) of
        Inl e \<Rightarrow> Inr (PyList [])
      | Inr v \<Rightarrow> Inr v)"

text \<open>\<^verbatim>\<open>questions_generator\<close>, the registry of target files (source lines 17 to 37).\<close>

definition questions_generator :: "string list" where
  "questions_generator = [
    ''contracts/rujira-account/src/lib.rs'',
    ''contracts/rujira-account/src/contract.rs'',
    ''contracts/rujira-account/src/execute.rs'',
    ''contracts/rujira-account/src/error.rs'',
    ''contracts/rujira-account/src/state.rs'',
    ''contracts/rujira-ghost-credit/src/lib.rs'',
    ''contracts/rujira-ghost-credit/src/account.rs'',
    ''contracts/rujira-ghost-credit/src/config.rs'',
    ''contracts/rujira-ghost-credit/src/contract.rs'',
    ''contracts/rujira-ghost-credit/src/error.rs'',
    ''contracts/rujira-ghost-credit/src/events.rs'',
    ''contracts/rujira-ghost-credit/src/state.rs'',
    ''contracts/rujira-ghost-vault/src/lib.rs'',
    ''contracts/rujira-ghost-vault/src/borrowers.rs'',
    ''contracts/rujira-ghost-vault/src/config.rs'',
    ''contracts/rujira-ghost-vault/src/contract.rs'',
    ''contracts/rujira-ghost-vault/src/error.rs'',
    ''contracts/rujira-ghost-vault/src/events.rs'',
    ''contracts/rujira-ghost-vault/src/state.rs''
  ]"

section \<open>The three composers\<close>

subsection \<open>Audit prompt: \<^verbatim>\<open>question_format\<close> (source lines 40 to 344)\<close>

text \<open>Source lines 50 to 57.\<close>
definition question_format_l050_l057 :: string where
  "question_format_l050_l057 =
    ''  \<newline>'' @
    ''You are an **Elite DeFi Security Auditor** specializing in   \<newline>'' @
    ''overcollateralized lending protocols, cross-chain asset management, oracle   \<newline>'' @
    ''manipulation resistance, and liquidation mechanisms. Your task is to analyze   \<newline>'' @
    ''the **Rujira Protocol** codebase'' @ em_dash @ ''a CosmWasm-based lending and borrowing system   \<newline>'' @
    ''built on THORChain featuring secured assets, multi-collateral credit accounts,   \<newline>'' @
    ''and permissionless liquidations'' @ em_dash @ ''through the lens of this single security question:   \<newline>'' @
    ''  \<newline>''"

text \<open>Source line 58, the text before the field.\<close>
definition question_format_l058_a :: string where
  "question_format_l058_a =
    ''**Security Question (scope for this run):** ''"

text \<open>The literal text before field 1 of the f-string of \<open>question_format\<close>.\<close>
definition question_format_text_0 :: string where
  "question_format_text_0 =
    question_format_l050_l057 @
    question_format_l058_a"

text \<open>Source line 58, the text after the field.\<close>
definition question_format_l058_b :: string where
  "question_format_l058_b =
    ''  \<newline>''"

text \<open>Source lines 59 to 80.\<close>
definition question_format_l059_l080 :: string where
  "question_format_l059_l080 =
    ''  \<newline>'' @
    ''**RUJIRA PROTOCOL CONTEXT:**  \<newline>'' @
    ''  \<newline>'' @
    ''**Architecture**: Rujira enables overcollateralized borrowing of THORChain secured   \<newline>'' @
    ''assets through a three-contract system. Users deposit collateral into credit accounts   \<newline>'' @
    ''(`rujira-account`), borrow from lending vaults (`rujira-ghost-vault`), and all operations   \<newline>'' @
    ''are orchestrated by a registry contract (`rujira-ghost-credit`). The protocol maintains   \<newline>'' @
    ''solvency through dynamic LTV calculations, collateral ratio haircuts, and   \<newline>'' @
    ''permissionless liquidation mechanisms.  \<newline>'' @
    ''  \<newline>'' @
    ''Think in invariant   \<newline>'' @
    ''Check every logic entry that could affect the protocol base on the question provided   \<newline>'' @
    ''Look at the exact file provided and other places also if it can cause a severe vuln   \<newline>'' @
    ''Think in an elite way becasue there is always a logic vuln that could occur   \<newline>'' @
    ''  \<newline>'' @
    ''**Key Components**:   \<newline>'' @
    ''  \<newline>'' @
    ''* **Credit Registry**: `rujira-ghost-credit/src/contract.rs` (main orchestrator   \<newline>'' @
    ''  with account creation, LTV enforcement, liquidation triggers),   \<newline>'' @
    ''  `rujira-ghost-credit/src/account.rs` (account validation and LTV calculations),   \<newline>'' @
    ''  `rujira-ghost-credit/src/config.rs` (protocol parameters and validation)  \<newline>'' @
    ''  \<newline>''"

text \<open>Source lines 81 to 100.\<close>
definition question_format_l081_l100 :: string where
  "question_format_l081_l100 =
    ''* **Lending Vaults**: `rujira-ghost-vault/src/contract.rs` (vault operations,   \<newline>'' @
    ''  interest distribution), `rujira-ghost-vault/src/state.rs` (share accounting,   \<newline>'' @
    ''  interest accrual), `rujira-ghost-vault/src/borrowers.rs` (borrower limits   \<newline>'' @
    ''  and authorization)  \<newline>'' @
    ''  \<newline>'' @
    ''* **Individual Accounts**: `rujira-account/src/contract.rs` (sudo-only access   \<newline>'' @
    ''  pattern, isolated accounting), `rujira-account/src/execute.rs` (message   \<newline>'' @
    ''  forwarding and execution)  \<newline>'' @
    ''  \<newline>'' @
    ''**Files in Scope**: All contracts in `contracts/rujira-account/src/`,   \<newline>'' @
    ''`contracts/rujira-ghost-credit/src/`, and `contracts/rujira-ghost-vault/src/`   \<newline>'' @
    ''directories. Test files are **out of scope** for vulnerability analysis   \<newline>'' @
    ''but may be referenced for understanding expected behavior.  \<newline>'' @
    ''  \<newline>'' @
    ''**CRITICAL INVARIANTS (derived from protocol specification and code):**  \<newline>'' @
    ''  \<newline>'' @
    ''1. **Owner-Gated Accounts**: Only `account.owner` can initiate operations via   \<newline>'' @
    ''   `ExecuteMsg::Account`. This ensures debt creation and collateral movements   \<newline>'' @
    ''   are bound to the NFT-like ownership model.  \<newline>'' @
    ''  \<newline>''"

text \<open>Source lines 101 to 120.\<close>
definition question_format_l101_l120 :: string where
  "question_format_l101_l120 =
    ''2. **Post-Adjustment LTV Check**: After any owner operation, `adjusted_ltv` must   \<newline>'' @
    ''   be `< adjustment_threshold`. If exceeded, the transaction fails to prevent   \<newline>'' @
    ''   unsafe account states.  \<newline>'' @
    ''  \<newline>'' @
    ''3. **Safe Liquidation Outcomes**: Liquidations only trigger when   \<newline>'' @
    ''   `adjusted_ltv >= liquidation_threshold` and must stop before over-selling   \<newline>'' @
    ''   collateral, respecting user preferences and max slip limits.  \<newline>'' @
    ''  \<newline>'' @
    ''4. **Whitelisted Vault Access**: Registry only routes to vaults listed in   \<newline>'' @
    ''   `collateral_ratios`, preventing rogue contracts from being used as debt sources.  \<newline>'' @
    ''  \<newline>'' @
    ''5. **Bounded Config Values**: All configuration changes validated via   \<newline>'' @
    ''   `Config::validate`, enforcing fee caps, ratio constraints, and threshold ordering.  \<newline>'' @
    ''  \<newline>'' @
    ''6. **Fee-First Liquidation Repay**: Protocol and liquidator fees extracted before   \<newline>'' @
    ''   debt repayment, ensuring fees are never minted without real debt repayment.  \<newline>'' @
    ''  \<newline>'' @
    ''7. **Admin-Only Accounts**: `rujira-account` instances only accept `sudo` calls   \<newline>'' @
    ''   from registry, maintaining strict access control over account operations.  \<newline>'' @
    ''  \<newline>''"

text \<open>Source lines 121 to 141.\<close>
definition question_format_l121_l141 :: string where
  "question_format_l121_l141 =
    ''8. **Governance-Whitelisted Borrowers**: Only pre-approved contracts via   \<newline>'' @
    ''   `SudoMsg::SetBorrower` can borrow from vaults, preventing unauthorized debt creation.  \<newline>'' @
    ''  \<newline>'' @
    ''9. **Borrow Limit Enforcement**: Each borrower has a maximum USD value they can   \<newline>'' @
    ''   borrow, preventing systemic over-leverage.  \<newline>'' @
    ''  \<newline>'' @
    ''10. **Always-Accrued Interest**: `distribute_interest()` called before all operations,   \<newline>'' @
    ''    ensuring accurate accounting and preventing stale data manipulation.  \<newline>'' @
    ''  \<newline>'' @
    ''**YOUR INVESTIGATION MISSION:**  \<newline>'' @
    ''  \<newline>'' @
    ''Accept the premise of the security question and explore **all** relevant   \<newline>'' @
    ''code paths, data structures, state transitions, and cross-contract   \<newline>'' @
    ''interactions related to it. Do not settle for surface observations'' @ em_dash @ ''trace   \<newline>'' @
    ''execution flows through account creation '' @ rightwards_arrow @ '' collateral deposit '' @ rightwards_arrow @ '' borrowing   \<newline>'' @
    rightwards_arrow @ '' LTV validation '' @ rightwards_arrow @ '' liquidation flows.  \<newline>'' @
    ''  \<newline>'' @
    ''Your goal is to find **one** concrete, exploitable vulnerability tied to   \<newline>'' @
    ''the question that an attacker, liquidator, or malicious user could exploit.   \<newline>'' @
    ''Focus on:   \<newline>'' @
    ''  \<newline>''"

text \<open>Source lines 142 to 161.\<close>
definition question_format_l142_l161 :: string where
  "question_format_l142_l161 =
    ''* Business-logic flaws (incorrect validation, missing checks)  \<newline>'' @
    ''* Mathematical errors (overflow, underflow, precision loss in LTV calculations)  \<newline>'' @
    ''* Race conditions (concurrent account operations, share accounting)  \<newline>'' @
    ''* Oracle manipulation (THORChain oracle price feeds)  \<newline>'' @
    ''* Collateral calculation bugs (collateral ratios, LTV computations)  \<newline>'' @
    ''* Liquidation vulnerabilities (premature liquidation, fee extraction)  \<newline>'' @
    ''* Interest accrual manipulation (distribution calculations, rate determination)  \<newline>'' @
    ''* Access control bypasses (sudo pattern violations, owner validation)  \<newline>'' @
    ''* Cross-contract interaction bugs (registry-vault-account communication)  \<newline>'' @
    ''* Asset accounting errors (share price manipulation, supply inconsistencies)  \<newline>'' @
    ''  \<newline>'' @
    ''**ATTACK SURFACE EXPLORATION:**  \<newline>'' @
    ''  \<newline>'' @
    ''1. **Account Operations** (`rujira-ghost-credit/src/contract.rs`, `rujira-ghost-credit/src/account.rs`):  \<newline>'' @
    ''   - Owner validation bypasses in `ExecuteMsg::Account`  \<newline>'' @
    ''   - LTV calculation errors during collateral/borrow operations  \<newline>'' @
    ''   - Race conditions between account state updates and LTV checks  \<newline>'' @
    ''   - Collateral ratio manipulation through asset valuation bugs  \<newline>'' @
    ''   - Account transfer vulnerabilities affecting ownership model  \<newline>'' @
    ''  \<newline>''"

text \<open>Source lines 162 to 181.\<close>
definition question_format_l162_l181 :: string where
  "question_format_l162_l181 =
    ''2. **Liquidation Mechanism** (`rujira-ghost-credit/src/contract.rs`):  \<newline>'' @
    ''   - Premature liquidation through oracle manipulation  \<newline>'' @
    ''   - Liquidation fee extraction exceeding protocol limits  \<newline>'' @
    ''   - Partial liquidation leaving residual debt positions  \<newline>'' @
    ''   - Liquidatee preference order manipulation  \<newline>'' @
    ''   - Max slip limit bypasses enabling over-collateralization  \<newline>'' @
    ''  \<newline>'' @
    ''3. **Vault Operations** (`rujira-ghost-vault/src/contract.rs`, `rujira-ghost-vault/src/state.rs`):  \<newline>'' @
    ''   - Share price manipulation through accounting errors  \<newline>'' @
    ''   - Interest distribution bugs enabling unlimited minting  \<newline>'' @
    ''   - Borrower limit bypasses through delegate borrowing  \<newline>'' @
    ''   - Deposit/withdrawal accounting inconsistencies  \<newline>'' @
    ''   - Protocol fee calculation errors  \<newline>'' @
    ''  \<newline>'' @
    ''4. **Access Control** (`rujira-account/src/contract.rs`, `rujira-ghost-vault/src/borrowers.rs`):  \<newline>'' @
    ''   - Sudo pattern violations enabling unauthorized account control  \<newline>'' @
    ''   - Borrower whitelist bypasses allowing unauthorized debt creation  \<newline>'' @
    ''   - Admin privilege escalation through configuration manipulation  \<newline>'' @
    ''   - Cross-contract authorization failures  \<newline>'' @
    ''  \<newline>''"

text \<open>Source lines 182 to 209.\<close>
definition question_format_l182_l209 :: string where
  "question_format_l182_l209 =
    ''5. **Oracle Integration** (THORChain oracle usage):  \<newline>'' @
    ''   - Price manipulation through oracle feed attacks  \<newline>'' @
    ''   - Stale oracle data exploitation in LTV calculations  \<newline>'' @
    ''   - Cross-chain price inconsistencies enabling arbitrage  \<newline>'' @
    ''   - Oracle failure handling during liquidations  \<newline>'' @
    ''  \<newline>'' @
    ''6. **Mathematical Operations** (LTV, interest, share calculations):  \<newline>'' @
    ''   - Precision loss in collateral-to-debt conversions  \<newline>'' @
    ''   - Overflow/underflow in share supply calculations  \<newline>'' @
    ''   - Rounding errors in interest distribution  \<newline>'' @
    ''   - Collateral ratio computation bugs  \<newline>'' @
    ''  \<newline>'' @
    ''**RUJIRA-SPECIFIC ATTACK VECTORS:**  \<newline>'' @
    ''  \<newline>'' @
    ''- **LTV Calculation Manipulation**: Can attackers manipulate collateral valuations   \<newline>'' @
    ''  or debt calculations to bypass `adjustment_threshold` and create undercollateralized positions?  \<newline>'' @
    ''- **Liquidation Race Conditions**: Can timing attacks between oracle updates and   \<newline>'' @
    ''  liquidation triggers enable profitable liquidations at manipulated prices?  \<newline>'' @
    ''- **Share Price Exploitation**: Can attackers manipulate share price calculations   \<newline>'' @
    ''  in vaults to drain assets or extract protocol fees?  \<newline>'' @
    ''- **Access Control Bypass**: Can attackers circumvent the sudo pattern or owner   \<newline>'' @
    ''  validation to gain unauthorized control over credit accounts?  \<newline>'' @
    ''- **Interest Accrual Bugs**: Can interest calculation errors enable unlimited   \<newline>'' @
    ''  asset minting or interest avoidance through timing attacks?  \<newline>'' @
    ''- **Cross-Contract State Inconsistencies**: Can state synchronization issues between   \<newline>'' @
    ''  registry, vaults, and accounts create exploitable arbitrage opportunities?  \<newline>'' @
    ''- **Collateral Ratio Haircut Bypass**: Can attackers exploit collateral ratio   \<newline>'' @
    ''  calculations to over-value volatile assets and increase borrowing capacity?  \<newline>''"

text \<open>Source lines 210 to 229.\<close>
definition question_format_l210_l229 :: string where
  "question_format_l210_l229 =
    ''- **Liquidation Fee Extraction**: Can liquidators extract fees exceeding protocol   \<newline>'' @
    ''  limits through calculation errors or state manipulation?  \<newline>'' @
    ''- **Oracle Manipulation**: Can THORChain oracle manipulation enable profitable   \<newline>'' @
    ''  liquidations or borrowing attacks?  \<newline>'' @
    ''- **Account Ownership Transfer Bugs**: Can account transfer mechanisms be exploited   \<newline>'' @
    ''  to bypass ownership controls or facilitate collateral theft?  \<newline>'' @
    ''  \<newline>'' @
    ''**TRUST MODEL:**  \<newline>'' @
    ''  \<newline>'' @
    ''**Trusted Roles**: THORChain oracle providers, Rujira Deployer Multisig, THORChain   \<newline>'' @
    ''node operators. Do **not** assume these actors behave maliciously unless the   \<newline>'' @
    ''question explicitly explores compromised oracle or governance scenarios.  \<newline>'' @
    ''  \<newline>'' @
    ''**Untrusted Actors**: Any user creating accounts, borrowing funds, liquidating   \<newline>'' @
    ''positions, or attempting price manipulation. Focus your analysis on bugs   \<newline>'' @
    ''exploitable by untrusted actors without requiring oracle compromise or   \<newline>'' @
    ''governance collusion.  \<newline>'' @
    ''  \<newline>'' @
    ''**KNOWN ISSUES / EXCLUSIONS:**  \<newline>'' @
    ''  \<newline>''"

text \<open>Source lines 230 to 248.\<close>
definition question_format_l230_l248 :: string where
  "question_format_l230_l248 =
    ''- Cryptographic primitives (CosmWasm crypto functions) are assumed secure  \<newline>'' @
    ''- THORChain network security (assumed resistant to 51% attacks)  \<newline>'' @
    ''- Oracle data accuracy (oracles are trusted to provide correct data)  \<newline>'' @
    ''- Network-level attacks (DDoS, BGP hijacking, DNS poisoning)  \<newline>'' @
    ''- CosmWasm runtime bugs unrelated to Rujira code  \<newline>'' @
    ''- Social engineering, phishing, or key theft  \<newline>'' @
    ''- Gas optimization, code style, missing comments  \<newline>'' @
    ''- Precision loss <0.01% in fee calculations  \<newline>'' @
    ''- Test file issues (tests are out of scope)  \<newline>'' @
    ''- Market risk (price movements) unless caused by protocol bugs  \<newline>'' @
    ''- MEV or front-running attacks unless enabled by protocol vulnerabilities  \<newline>'' @
    ''  \<newline>'' @
    ''**VALID IMPACT CATEGORIES (Code4rena Bug Bounty):**  \<newline>'' @
    ''  \<newline>'' @
    ''**Critical Severity**:  \<newline>'' @
    ''- Direct loss of funds (theft of user collateral or protocol assets)  \<newline>'' @
    ''- Permanent freezing of funds (fix requires protocol redeployment)  \<newline>'' @
    ''- Protocol insolvency leading to systemic loss  \<newline>'' @
    ''  \<newline>''"

text \<open>Source lines 249 to 267.\<close>
definition question_format_l249_l267 :: string where
  "question_format_l249_l267 =
    ''**High Severity**:  \<newline>'' @
    ''- Temporary freezing of funds with economic loss  \<newline>'' @
    ''- Systemic undercollateralization risks  \<newline>'' @
    ''- Widespread liquidations due to protocol bugs  \<newline>'' @
    ''  \<newline>'' @
    ''**Medium Severity**:  \<newline>'' @
    ''- Economic manipulation benefiting attackers  \<newline>'' @
    ''- State inconsistencies requiring manual intervention  \<newline>'' @
    ''- Interest or fee calculation errors  \<newline>'' @
    ''- DoS vulnerabilities affecting core functionality  \<newline>'' @
    ''  \<newline>'' @
    ''**Low/QA (out of scope)**:  \<newline>'' @
    ''- Minor precision loss (<0.01%)  \<newline>'' @
    ''- Gas inefficiencies  \<newline>'' @
    ''- Event emission or logging issues  \<newline>'' @
    ''- Non-critical edge cases with no financial impact  \<newline>'' @
    ''  \<newline>'' @
    ''**OUTPUT REQUIREMENTS:**  \<newline>'' @
    ''  \<newline>''"

text \<open>Source lines 268 to 278.\<close>
definition question_format_l268_l278 :: string where
  "question_format_l268_l278 =
    ''If you discover a valid vulnerability related to the security question,   \<newline>'' @
    ''produce a **full report** following the format below. Your report must include:   \<newline>'' @
    ''- Exact file paths and function names  \<newline>'' @
    ''- Code quotations (actual snippets from the in-scope contracts)  \<newline>'' @
    ''- Step-by-step exploitation path with realistic parameters  \<newline>'' @
    ''- Clear explanation of which invariant is broken  \<newline>'' @
    ''- Impact quantification (fund loss amount, collateral affected)  \<newline>'' @
    ''- Likelihood assessment (attacker profile, preconditions, complexity)  \<newline>'' @
    ''- Concrete recommendation with code fix  \<newline>'' @
    ''- Proof of Concept (Rust test demonstrating the exploit)  \<newline>'' @
    ''  \<newline>''"

text \<open>Source line 279.\<close>
definition question_format_l279 :: string where
  "question_format_l279 =
    ''If **no** valid vulnerability emerges after thorough investigation, state exactly:   \<newline>''"

text \<open>Source line 280.\<close>
definition question_format_l280 :: string where
  "question_format_l280 =
    ''`#NoVulnerability found for this question.`  \<newline>''"

text \<open>Source lines 281 to 303.\<close>
definition question_format_l281_l303 :: string where
  "question_format_l281_l303 =
    ''  \<newline>'' @
    ''**Do not fabricate or exaggerate issues.** Only concrete, exploitable bugs with   \<newline>'' @
    ''clear attack paths and realistic impact count.  \<newline>'' @
    ''  \<newline>'' @
    ''**Do not** report:   \<newline>'' @
    ''- Known issues from previous Halborn audits  \<newline>'' @
    ''- Out-of-scope problems (test files, CosmWasm bugs, crypto primitive breaks)  \<newline>'' @
    ''- Theoretical vulnerabilities without clear attack path and PoC  \<newline>'' @
    ''- Issues requiring trusted roles to behave maliciously  \<newline>'' @
    ''- Minor optimizations, style issues, or low-severity findings  \<newline>'' @
    ''  \<newline>'' @
    ''**Focus on one high-quality finding** rather than multiple weak claims.  \<newline>'' @
    ''  \<newline>'' @
    ''**VALIDATION CHECKLIST (Before Reporting):**  \<newline>'' @
    ''- [ ] Vulnerability lies within one of the in-scope contracts (not test/)  \<newline>'' @
    ''- [ ] Exploitable by unprivileged attacker (no oracle/governance collusion required)  \<newline>'' @
    ''- [ ] Attack path is realistic with correct data types and feasible parameters  \<newline>'' @
    ''- [ ] Impact meets Critical, High, or Medium severity per Code4rena scope  \<newline>'' @
    ''- [ ] PoC can be implemented as Rust test or transaction sequence  \<newline>'' @
    ''- [ ] Issue breaks at least one documented invariant  \<newline>'' @
    ''- [ ] Not a known exclusion from Halborn audits  \<newline>'' @
    ''- [ ] Clear financial harm, collateral loss, or state divergence demonstrated  \<newline>'' @
    ''  \<newline>''"

text \<open>Source lines 304 to 323.\<close>
definition question_format_l304_l323 :: string where
  "question_format_l304_l323 =
    ''---  \<newline>'' @
    ''  \<newline>'' @
    ''**AUDIT REPORT FORMAT** (if vulnerability found):  \<newline>'' @
    ''  \<newline>'' @
    ''Audit Report  \<newline>'' @
    ''  \<newline>'' @
    ''## Title   \<newline>'' @
    ''The Title Of the Report   \<newline>'' @
    ''  \<newline>'' @
    ''## Summary  \<newline>'' @
    ''A short summary of the issue, keep it brief.  \<newline>'' @
    ''  \<newline>'' @
    ''## Finding Description  \<newline>'' @
    ''A more detailed explanation of the issue. Poorly written or incorrect findings may result in rejection and a decrease of reputation score.  \<newline>'' @
    ''  \<newline>'' @
    ''Describe which security guarantees it breaks and how it breaks them. If this bug does not automatically happen, showcase how a malicious input would propagate through the system to the part of the code where the issue occurs.  \<newline>'' @
    ''  \<newline>'' @
    ''## Impact Explanation  \<newline>'' @
    ''Elaborate on why you've chosen a particular impact assessment.  \<newline>'' @
    ''  \<newline>''"

text \<open>Source lines 324 to 342.\<close>
definition question_format_l324_l342 :: string where
  "question_format_l324_l342 =
    ''## Likelihood Explanation  \<newline>'' @
    ''Explain how likely this is to occur and why.  \<newline>'' @
    ''  \<newline>'' @
    ''## Recommendation  \<newline>'' @
    ''How can the issue be fixed or solved. Preferably, you can also add a snippet of the fixed code here.  \<newline>'' @
    ''  \<newline>'' @
    ''## Proof of Concept  \<newline>'' @
    ''A proof of concept is normally required for Critical, High and Medium Submissions for reviewers under 80 reputation points. Please check the competition page for more details, otherwise your submission may be rejected by the judges.  \<newline>'' @
    ''Very important the test function using their test must be provided in here and pls it must be able to compile and run successfully  \<newline>'' @
    ''  \<newline>'' @
    ''**Remember**: False positives harm credibility more than missed findings.  Assume claims are invalid until overwhelming evidence proves otherwise.  \<newline>'' @
    ''  \<newline>'' @
    ''**Now perform STRICT validation of the claim above.**  \<newline>'' @
    ''  \<newline>'' @
    ''**Output ONLY:**  \<newline>'' @
    ''- A full audit report (if genuinely valid after passing **all** checks above) following the specified format  \<newline>'' @
    ''- `#NoVulnerability found for this question.` (if **any** check fails)  \<newline>'' @
    ''  \<newline>'' @
    ''**Be ruthlessly skeptical.  The bar for validity is EXTREMELY valid.**  \<newline>''"

text \<open>The literal text after field 1 of the f-string of \<open>question_format\<close>.\<close>
definition question_format_text_1 :: string where
  "question_format_text_1 =
    question_format_l058_b @
    question_format_l059_l080 @
    question_format_l081_l100 @
    question_format_l101_l120 @
    question_format_l121_l141 @
    question_format_l142_l161 @
    question_format_l162_l181 @
    question_format_l182_l209 @
    question_format_l210_l229 @
    question_format_l230_l248 @
    question_format_l249_l267 @
    question_format_l268_l278 @
    question_format_l279 @
    question_format_l280 @
    question_format_l281_l303 @
    question_format_l304_l323 @
    question_format_l324_l342"

text \<open>
  The f-string assigned to \<^verbatim>\<open>prompt\<close>: its constant texts and its one formatted value,
  in source order (it stands on source line 58).
\<close>
definition question_format_prompt :: "fstring_part list" where
  "question_format_prompt =
    [Constant question_format_text_0,
     FormattedValue ''question'',
     Constant question_format_text_1]"

text \<open>
  \<^verbatim>\<open>question_format(question)\<close>: the f-string is evaluated with the parameter as the only local
  variable, and returned.
\<close>
definition question_format :: "(pyobj \<Rightarrow> string) \<Rightarrow> namespace \<Rightarrow> string \<Rightarrow> exn + string" where
  "question_format str_of globals question =
     JoinedStr str_of globals [''question'' \<mapsto> PyStr question] question_format_prompt"

subsection \<open>Validation prompt: \<^verbatim>\<open>validation_format\<close> (source lines 347 to 692)\<close>

text \<open>Source lines 357 to 362.\<close>
definition validation_format_l357_l362 :: string where
  "validation_format_l357_l362 =
    ''\<newline>'' @
    ''You are an **Elite DeFi Security Judge** with deep expertise in overcollateralized lending protocols, CosmWasm smart contracts, THORChain integration, and Code4rena bug bounty validation. Your ONLY task is **ruthless technical validation** of security claims against the Rujira codebase.\<newline>'' @
    ''\<newline>'' @
    ''Note: THORChain oracle providers and Rujira Deployer Multisig are trusted roles.\<newline>'' @
    ''\<newline>'' @
    ''**SECURITY CLAIM TO VALIDATE:**\<newline>''"

text \<open>The literal text before field 1 of the f-string of \<open>validation_format\<close>.\<close>
definition validation_format_text_0 :: string where
  "validation_format_text_0 =
    validation_format_l357_l362"

text \<open>Source line 363, the text after the field.\<close>
definition validation_format_l363_a :: string where
  "validation_format_l363_a =
    ''\<newline>''"

text \<open>Source lines 364 to 383.\<close>
definition validation_format_l364_l383 :: string where
  "validation_format_l364_l383 =
    ''\<newline>'' @
    ''================================================================================\<newline>'' @
    ''## **RUJIRA PROTOCOL VALIDATION FRAMEWORK**\<newline>'' @
    ''\<newline>'' @
    ''### **PHASE 1: IMMEDIATE DISQUALIFICATION CHECKS**\<newline>'' @
    ''Reject immediately (`#NoVulnerability`) if **ANY** apply:\<newline>'' @
    ''\<newline>'' @
    ''#### **A. Scope Violations**\<newline>'' @
    ''- '' @ cross_mark @ '' Affects files **not** in the three in-scope contract directories\<newline>'' @
    ''- '' @ cross_mark @ '' Targets any file under test directories (`*.test.*`, `tests/`) - tests are out of scope\<newline>'' @
    ''- '' @ cross_mark @ '' Claims about documentation, comments, code style, or logging (not security issues)\<newline>'' @
    ''- '' @ cross_mark @ '' Focuses on out-of-scope components: rujira-bow, rujira-fin, rujira-thorchain-swap, rujira-mint, rujira-pilot, rujira-staking, rujira-revenue\<newline>'' @
    ''\<newline>'' @
    ''**In-Scope Files (3 contracts):**\<newline>'' @
    ''- **rujira-account**: `contracts/rujira-account/src/**/*.rs` (sudo pattern, isolated accounting)\<newline>'' @
    ''- **rujira-ghost-credit**: `contracts/rujira-ghost-credit/src/**/*.rs` (registry, LTV enforcement, liquidations)\<newline>'' @
    ''- **rujira-ghost-vault**: `contracts/rujira-ghost-vault/src/**/*.rs` (lending vaults, interest distribution)\<newline>'' @
    ''\<newline>'' @
    ''**Verify**: Check that every file path cited in the report matches exactly one of the in-scope contracts.\<newline>'' @
    ''\<newline>''"

text \<open>Source lines 384 to 404.\<close>
definition validation_format_l384_l404 :: string where
  "validation_format_l384_l404 =
    ''#### **B. Threat Model Violations**\<newline>'' @
    ''- '' @ cross_mark @ '' Requires THORChain oracle manipulation or compromise (oracles are trusted)\<newline>'' @
    ''- '' @ cross_mark @ '' Assumes compromised Rujira Deployer Multisig (multisig is trusted role)\<newline>'' @
    ''- '' @ cross_mark @ '' Needs THORChain node operators to act maliciously (node operators are trusted)\<newline>'' @
    ''- '' @ cross_mark @ '' Requires attacker to compromise CosmWasm runtime or blockchain consensus\<newline>'' @
    ''- '' @ cross_mark @ '' Assumes cryptographic primitives (CosmWasm crypto functions) are broken\<newline>'' @
    ''- '' @ cross_mark @ '' Depends on network-level attacks: DDoS, BGP hijacking, DNS poisoning\<newline>'' @
    ''- '' @ cross_mark @ '' Relies on social engineering, phishing, key theft, or user operational security failures\<newline>'' @
    ''\<newline>'' @
    ''**Trusted Roles**: THORChain oracle providers provide price feeds; Rujira Deployer Multisig controls protocol parameters; THORChain node operators can pause contracts. Do **not** assume these actors behave maliciously.\<newline>'' @
    ''\<newline>'' @
    ''**Untrusted Actors**: Any user creating accounts, borrowing funds, liquidating positions, or attempting manipulation.\<newline>'' @
    ''\<newline>'' @
    ''#### **C. Known Issues / Accepted Risks** (from Halborn audits)\<newline>'' @
    ''- '' @ cross_mark @ '' Any finding already mentioned in Halborn audit reports\<newline>'' @
    ''- '' @ cross_mark @ '' Liquidations requiring off-chain triggering (by design, permissionless)\<newline>'' @
    ''- '' @ cross_mark @ '' Market risk from normal price movements (not protocol bugs)\<newline>'' @
    ''- '' @ cross_mark @ '' THORChain network-level issues or secured asset risks\<newline>'' @
    ''- '' @ cross_mark @ '' Precision loss <0.01% in calculations\<newline>'' @
    ''- '' @ cross_mark @ '' Gas/fee optimization issues without security impact\<newline>'' @
    ''\<newline>''"

text \<open>Source lines 405 to 424.\<close>
definition validation_format_l405_l424 :: string where
  "validation_format_l405_l424 =
    ''#### **D. Non-Security Issues**\<newline>'' @
    ''- '' @ cross_mark @ '' Gas optimizations, performance improvements, or micro-optimizations\<newline>'' @
    ''- '' @ cross_mark @ '' Code style, naming conventions, or refactoring suggestions\<newline>'' @
    ''- '' @ cross_mark @ '' Missing events, logs, error messages, or better user experience\<newline>'' @
    ''- '' @ cross_mark @ '' Documentation improvements, README updates, or comment additions\<newline>'' @
    ''- '' @ cross_mark @ '' \"Best practices\" recommendations with no concrete exploit scenario\<newline>'' @
    ''- '' @ cross_mark @ '' Input validation preventing honest user mistakes unless it enables theft\<newline>'' @
    ''- '' @ cross_mark @ '' Minor precision errors with negligible financial impact (<0.01%)\<newline>'' @
    ''\<newline>'' @
    ''#### **E. Invalid Exploit Scenarios**\<newline>'' @
    ''- '' @ cross_mark @ '' Requires impossible inputs: negative amounts, invalid addresses, unrealistic prices\<newline>'' @
    ''- '' @ cross_mark @ '' Cannot be triggered through any realistic ExecuteMsg or SudoMsg call\<newline>'' @
    ''- '' @ cross_mark @ '' Depends on calling internal functions not exposed through any public API\<newline>'' @
    ''- '' @ cross_mark @ '' Relies on race conditions prevented by atomic operations or state checks\<newline>'' @
    ''- '' @ cross_mark @ '' Needs multiple coordinated transactions with no economic incentive\<newline>'' @
    ''- '' @ cross_mark @ '' Requires attacker to already possess the collateral they seek to steal\<newline>'' @
    ''- '' @ cross_mark @ '' Depends on block timestamp manipulation beyond reasonable bounds\<newline>'' @
    ''\<newline>'' @
    ''### **PHASE 2: RUJIRA-SPECIFIC DEEP CODE VALIDATION**\<newline>'' @
    ''\<newline>''"

text \<open>Source lines 425 to 452.\<close>
definition validation_format_l425_l452 :: string where
  "validation_format_l425_l452 =
    ''#### **Step 1: TRACE COMPLETE EXECUTION PATH THROUGH LENDING ARCHITECTURE**\<newline>'' @
    ''\<newline>'' @
    ''**Rujira Flow Patterns:**\<newline>'' @
    ''\<newline>'' @
    ''1. **Account Creation Flow**:\<newline>'' @
    ''   User calls `rujira-ghost-credit::ExecuteMsg::CreateAccount` '' @ rightwards_arrow @ '' creates new `rujira-account` instance '' @ rightwards_arrow @ '' registry set as admin '' @ rightwards_arrow @ '' sudo-only access established\<newline>'' @
    ''\<newline>'' @
    ''2. **Collateral Deposit Flow**:\<newline>'' @
    ''   User sends tokens to account '' @ rightwards_arrow @ '' calls `ExecuteMsg::Account(AccountMsg::Deposit)` '' @ rightwards_arrow @ '' registry validates ownership '' @ rightwards_arrow @ '' sudo call to account '' @ rightwards_arrow @ '' tokens held in isolated accounting\<newline>'' @
    ''\<newline>'' @
    ''3. **Borrowing Flow**:\<newline>'' @
    ''   User calls `ExecuteMsg::Account(AccountMsg::Borrow)` '' @ rightwards_arrow @ '' registry validates ownership & LTV '' @ rightwards_arrow @ '' sudo call to account '' @ rightwards_arrow @ '' account calls `BorrowerMsg::Borrow` on vault '' @ rightwards_arrow @ '' vault checks borrower whitelist & limits '' @ rightwards_arrow @ '' tokens transferred to account\<newline>'' @
    ''\<newline>'' @
    ''4. **Liquidation Flow**:\<newline>'' @
    ''   Liquidator calls `ExecuteMsg::Liquidate` '' @ rightwards_arrow @ '' registry checks `adjusted_ltv >= liquidation_threshold` '' @ rightwards_arrow @ '' calculates fees & repayment '' @ rightwards_arrow @ '' sudo calls to close positions '' @ rightwards_arrow @ '' liquidator receives bonus\<newline>'' @
    ''\<newline>'' @
    ''For each claim, reconstruct the entire execution path:\<newline>'' @
    ''\<newline>'' @
    ''1. **Identify Entry Point**: Which user-facing function is called? (`ExecuteMsg::Account`, `ExecuteMsg::Liquidate`, etc.)\<newline>'' @
    ''2. **Follow Internal Calls**: Trace through all function calls, including:\<newline>'' @
    ''   - Ownership validation in `rujira-ghost-credit`\<newline>'' @
    ''   - LTV calculations in `account.rs`\<newline>'' @
    ''   - Sudo forwarding to `rujira-account`\<newline>'' @
    ''   - Vault operations in `rujira-ghost-vault`\<newline>'' @
    ''3. **State Before Exploit**: Document initial state (collateral balances, debt, LTV ratios)\<newline>'' @
    ''4. **State Transitions**: Enumerate all changes (collateral movements, debt updates, share minting/burning)\<newline>'' @
    ''5. **Check Protections**: Verify if ownership checks, LTV validation, or mathematical constraints prevent the exploit\<newline>'' @
    ''6. **Final State**: Show how the exploit results in unauthorized state (collateral loss, undercollateralization, share manipulation)\<newline>''"

text \<open>Source lines 453 to 474.\<close>
definition validation_format_l453_l474 :: string where
  "validation_format_l453_l474 =
    ''\<newline>'' @
    ''#### **Step 2: VALIDATE EVERY CLAIM WITH CODE EVIDENCE**\<newline>'' @
    ''\<newline>'' @
    ''For **each assertion** in the report, demand:\<newline>'' @
    ''\<newline>'' @
    ''**'' @ check_mark @ '' Required Evidence:**\<newline>'' @
    ''- Exact file path and line numbers (e.g., `rujira-ghost-credit/src/account.rs:152-191`) within in-scope contracts\<newline>'' @
    ''- Direct Rust code quotes showing the vulnerable logic\<newline>'' @
    ''- Call traces with actual parameter values demonstrating how execution reaches the vulnerable line\<newline>'' @
    ''- Calculations showing how collateral, debt, or LTV ratios change incorrectly\<newline>'' @
    ''- References to specific invariant violations\<newline>'' @
    ''\<newline>'' @
    ''**'' @ triangular_flag @ '' RED FLAGS (indicate INVALID):**\<newline>'' @
    ''\<newline>'' @
    ''1. **\"Missing Validation\" Claims**:\<newline>'' @
    ''   - '' @ cross_mark @ '' Invalid unless report shows input bypasses *all* validation layers:\<newline>'' @
    ''     - `ExecuteMsg::Account` ownership checks in `rujira-ghost-credit`\<newline>'' @
    ''     - LTV validation in `account.rs`\<newline>'' @
    ''     - Vault borrower whitelist checks\<newline>'' @
    ''     - Sudo pattern restrictions in `rujira-account`\<newline>'' @
    ''   - '' @ check_mark @ '' Valid if a specific input type genuinely has no validation path\<newline>'' @
    ''\<newline>''"

text \<open>Source lines 475 to 495.\<close>
definition validation_format_l475_l495 :: string where
  "validation_format_l475_l495 =
    ''2. **\"LTV Calculation\" Claims**:\<newline>'' @
    ''   - '' @ cross_mark @ '' Invalid unless report demonstrates:\<newline>'' @
    ''     - `adjusted_ltv` calculation produces incorrect values\<newline>'' @
    ''     - Attacker can bypass `adjustment_threshold` or `liquidation_threshold`\<newline>'' @
    ''     - Specific mathematical error in collateral ratio computation\<newline>'' @
    ''   - '' @ check_mark @ '' Valid if LTV calculations can be manipulated for undercollateralization\<newline>'' @
    ''\<newline>'' @
    ''3. **\"Share Price Manipulation\" Claims**:\<newline>'' @
    ''   - '' @ cross_mark @ '' Invalid unless report demonstrates:\<newline>'' @
    ''     - `totalAssets()` or `totalSupply()` can be manipulated in vault\<newline>'' @
    ''     - Share price decreases unexpectedly allowing asset drainage\<newline>'' @
    ''     - Attacker can extract value through share accounting errors\<newline>'' @
    ''   - '' @ check_mark @ '' Valid if share accounting enables fund extraction\<newline>'' @
    ''\<newline>'' @
    ''4. **\"Access Control Bypass\" Claims**:\<newline>'' @
    ''   - '' @ cross_mark @ '' Invalid unless report demonstrates:\<newline>'' @
    ''     - Sudo pattern can be circumvented in `rujira-account`\<newline>'' @
    ''     - Ownership validation can be bypassed in `rujira-ghost-credit`\<newline>'' @
    ''     - Borrower whitelist can be bypassed in vault\<newline>'' @
    ''   - '' @ check_mark @ '' Valid if access controls can be circumvented\<newline>'' @
    ''\<newline>''"

text \<open>Source lines 496 to 516.\<close>
definition validation_format_l496_l516 :: string where
  "validation_format_l496_l516 =
    ''5. **\"Liquidation Vulnerability\" Claims**:\<newline>'' @
    ''   - '' @ cross_mark @ '' Invalid unless report demonstrates:\<newline>'' @
    ''     - Liquidation can be triggered prematurely or incorrectly\<newline>'' @
    ''     - Fee extraction exceeds protocol limits\<newline>'' @
    ''     - Liquidation process leaves residual debt or over-sells collateral\<newline>'' @
    ''   - '' @ check_mark @ '' Valid if liquidation mechanism can be exploited\<newline>'' @
    ''\<newline>'' @
    ''6. **\"Interest Accrual Bugs\" Claims**:\<newline>'' @
    ''   - '' @ cross_mark @ '' Invalid unless report demonstrates:\<newline>'' @
    ''     - `distribute_interest()` miscalculates interest or shares\<newline>'' @
    ''     - Interest index fails to update correctly\<newline>'' @
    ''     - Attacker can mint unlimited shares through interest manipulation\<newline>'' @
    ''   - '' @ check_mark @ '' Valid if interest calculations enable fund extraction\<newline>'' @
    ''\<newline>'' @
    ''7. **\"Collateral Ratio\" Claims**:\<newline>'' @
    ''   - '' @ cross_mark @ '' Invalid unless report demonstrates:\<newline>'' @
    ''     - Collateral ratio haircuts can be bypassed\<newline>'' @
    ''     - Asset valuation can be manipulated for higher borrowing capacity\<newline>'' @
    ''     - Cross-collateral calculations are incorrect\<newline>'' @
    ''   - '' @ check_mark @ '' Valid if collateral calculations enable undercollateralization\<newline>'' @
    ''\<newline>''"

text \<open>Source lines 517 to 540.\<close>
definition validation_format_l517_l540 :: string where
  "validation_format_l517_l540 =
    ''8. **\"Mathematical Overflow\" Claims**:\<newline>'' @
    ''   - '' @ cross_mark @ '' Invalid unless report demonstrates:\<newline>'' @
    ''     - Specific arithmetic operation overflows/underflows\<newline>'' @
    ''     - Overflow causes incorrect LTV or share calculations\<newline>'' @
    ''     - Attacker can exploit overflow for fund theft\<newline>'' @
    ''   - '' @ check_mark @ '' Valid if mathematical errors enable fund loss\<newline>'' @
    ''\<newline>'' @
    ''#### **Step 3: CROSS-REFERENCE WITH TEST SUITE**\<newline>'' @
    ''\<newline>'' @
    ''Rujira's test suite includes comprehensive tests (out of scope but informative). Ask:\<newline>'' @
    ''\<newline>'' @
    ''1. **Existing Coverage**: Do current tests handle the scenario? Check tests like:\<newline>'' @
    ''   - `rujira-ghost-credit/src/tests/contract.rs` - account lifecycle\<newline>'' @
    ''   - Vault tests for interest distribution and borrowing\<newline>'' @
    ''   - Account tests for sudo pattern and isolation\<newline>'' @
    ''\<newline>'' @
    ''2. **Test Gaps**: Is there an obvious gap that would allow the exploit? If scenario is untested, suggest adding test but do **not** assume vulnerability.\<newline>'' @
    ''\<newline>'' @
    ''3. **Invariant Tests**: Would existing invariant checks catch the bug? Tests verify:\<newline>'' @
    ''   - Owner-gated account operations\<newline>'' @
    ''   - Post-adjustment LTV checks\<newline>'' @
    ''   - Safe liquidation outcomes\<newline>'' @
    ''   - Always-accrued interest\<newline>'' @
    ''\<newline>''"

text \<open>Source lines 541 to 563.\<close>
definition validation_format_l541_l563 :: string where
  "validation_format_l541_l563 =
    ''4. **PoC Feasibility**: Can the report's PoC be implemented as a Rust test using existing contracts without modifying core code?\<newline>'' @
    ''\<newline>'' @
    ''**Test Case Realism Check**: PoCs must use realistic account structures, valid collateral amounts, and respect protocol constraints.\<newline>'' @
    ''\<newline>'' @
    ''### **PHASE 3: IMPACT & EXPLOITABILITY VALIDATION**\<newline>'' @
    ''\<newline>'' @
    ''#### **Impact Must Be CONCRETE and ALIGN WITH CODE4RENA SCOPE**\<newline>'' @
    ''\<newline>'' @
    ''**'' @ check_mark @ '' Valid CRITICAL Severity Impacts (per Code4rena scope):**\<newline>'' @
    ''\<newline>'' @
    ''1. **Direct Loss of Funds (Critical)**:\<newline>'' @
    ''   - Theft of user collateral from credit accounts\<newline>'' @
    ''   - Theft of vault assets through share manipulation\<newline>'' @
    ''   - Unauthorized borrowing from vaults\<newline>'' @
    ''   - Collateral drainage through mathematical exploits\<newline>'' @
    ''   - Example: \"Share price manipulation allows attacker to drain 1000 USDC from vault\"\<newline>'' @
    ''\<newline>'' @
    ''2. **Protocol Insolvency (Critical)**:\<newline>'' @
    ''   - Systemic undercollateralization causing protocol-wide losses\<newline>'' @
    ''   - LTV calculation errors enabling mass undercollateralization\<newline>'' @
    ''   - Share supply overflow preventing all operations\<newline>'' @
    ''   - Example: \"LTV calculation bug allows all accounts to become undercollateralized simultaneously\"\<newline>'' @
    ''\<newline>''"

text \<open>Source lines 564 to 585.\<close>
definition validation_format_l564_l585 :: string where
  "validation_format_l564_l585 =
    ''3. **Permanent Freezing of Funds (Critical)**:\<newline>'' @
    ''   - Funds locked with no transaction able to unlock them\<newline>'' @
    ''   - Account bricking preventing collateral withdrawal\<newline>'' @
    ''   - Share supply overflow preventing withdrawals\<newline>'' @
    ''   - Example: \"Account creation bug locks 500 BTC collateral permanently\"\<newline>'' @
    ''\<newline>'' @
    ''**'' @ check_mark @ '' Valid HIGH Severity Impacts:**\<newline>'' @
    ''\<newline>'' @
    ''4. **Temporary Freezing with Economic Loss (High)**:\<newline>'' @
    ''   - Funds temporarily frozen causing economic damage\<newline>'' @
    ''   - Widespread liquidations due to protocol bugs\<newline>'' @
    ''   - Systemic undercollateralization risks\<newline>'' @
    ''   - Example: \"Liquidation bug causes 100 accounts to be liquidated unnecessarily\"\<newline>'' @
    ''\<newline>'' @
    ''**'' @ check_mark @ '' Valid MEDIUM Severity Impacts:**\<newline>'' @
    ''\<newline>'' @
    ''5. **Economic Manipulation (Medium)**:\<newline>'' @
    ''   - Interest rate manipulation benefiting attackers\<newline>'' @
    ''   - Liquidation bonus extraction beyond intended amounts\<newline>'' @
    ''   - State inconsistencies requiring manual intervention\<newline>'' @
    ''   - Example: \"Interest accrual bug allows attacker to extract 10 ETH in excess interest\"\<newline>'' @
    ''\<newline>''"

text \<open>Source lines 586 to 605.\<close>
definition validation_format_l586_l605 :: string where
  "validation_format_l586_l605 =
    ''6. **State Inconsistencies (Medium)**:\<newline>'' @
    ''   - Interest or fee calculation errors\<newline>'' @
    ''   - DoS vulnerabilities affecting core functionality\<newline>'' @
    ''   - LTV calculation inconsistencies\<newline>'' @
    ''   - Example: \"LTV calculation bug causes 5% error in collateral requirements\"\<newline>'' @
    ''\<newline>'' @
    ''**'' @ cross_mark @ '' Invalid \"Impacts\":**\<newline>'' @
    ''\<newline>'' @
    ''- User withdraws their own collateral (normal protocol operation)\<newline>'' @
    ''- Attacker loses their own funds through self-draining (not an exploit)\<newline>'' @
    ''- Theoretical cryptographic weaknesses without practical exploit\<newline>'' @
    ''- General market risk (price movements) unless caused by protocol bugs\<newline>'' @
    ''- \"Could be problematic if...\" statements without concrete exploit path\<newline>'' @
    ''- Minor fee overpayment or underpayment (<0.1% of transaction value)\<newline>'' @
    ''- Precision loss <0.01% across reasonable transaction volumes\<newline>'' @
    ''\<newline>'' @
    ''#### **Likelihood Reality Check**\<newline>'' @
    ''\<newline>'' @
    ''Assess exploit feasibility:\<newline>'' @
    ''\<newline>''"

text \<open>Source lines 606 to 625.\<close>
definition validation_format_l606_l625 :: string where
  "validation_format_l606_l625 =
    ''1. **Attacker Profile**:\<newline>'' @
    ''   - Any user with THORChain secured assets to deposit? '' @ check_mark @ '' Likely\<newline>'' @
    ''   - Liquidator monitoring for undercollateralized accounts? '' @ check_mark @ '' Possible\<newline>'' @
    ''   - Attacker with ability to manipulate THORChain oracles? '' @ cross_mark @ '' Impossible (trusted role)\<newline>'' @
    ''   - Compromised Rujira Deployer Multisig? '' @ cross_mark @ '' Impossible (trusted role)\<newline>'' @
    ''\<newline>'' @
    ''2. **Preconditions**:\<newline>'' @
    ''   - Normal market operation? '' @ check_mark @ '' High likelihood\<newline>'' @
    ''   - High vault utilization? '' @ check_mark @ '' Possible during volatile periods\<newline>'' @
    ''   - Specific account structure (multiple collateral types)? '' @ check_mark @ '' Attacker-controlled\<newline>'' @
    ''   - Specific oracle state (price movements)? '' @ check_mark @ '' Attacker can time submission\<newline>'' @
    ''   - Network congestion or high gas prices? '' @ check_mark @ '' Possible but not required\<newline>'' @
    ''\<newline>'' @
    ''3. **Execution Complexity**:\<newline>'' @
    ''   - Single ExecuteMsg call? '' @ check_mark @ '' Simple\<newline>'' @
    ''   - Multiple coordinated transactions? '' @ check_mark @ '' Moderate (attacker controls)\<newline>'' @
    ''   - Complex account with multiple collateral types? '' @ check_mark @ '' Attacker can create\<newline>'' @
    ''   - Requires precise timing or front-running? '' @ warning_sign @ variation_selector_16 @ '' Higher complexity\<newline>'' @
    ''   - Requires mathematical precision? '' @ check_mark @ '' Attacker can calculate\<newline>'' @
    ''\<newline>''"

text \<open>Source lines 626 to 649.\<close>
definition validation_format_l626_l649 :: string where
  "validation_format_l626_l649 =
    ''4. **Economic Cost**:\<newline>'' @
    ''   - Collateral deposit required? '' @ check_mark @ '' Attacker-determined (can be minimal)\<newline>'' @
    ''   - Gas costs for transactions? '' @ check_mark @ '' Moderate\<newline>'' @
    ''   - Potential profit vs. cost? '' @ check_mark @ '' Must be positive for valid exploit\<newline>'' @
    ''   - Liquidation capital required? '' @ check_mark @ '' Varies by opportunity\<newline>'' @
    ''\<newline>'' @
    ''5. **Combined Probability**:\<newline>'' @
    ''   - Multiply probabilities of all conditions\<newline>'' @
    ''   - If resulting likelihood <0.1% with no economic incentive '' @ rightwards_arrow @ '' Invalid\<newline>'' @
    ''   - If exploit is profitable and feasible '' @ rightwards_arrow @ '' Valid\<newline>'' @
    ''\<newline>'' @
    ''### **PHASE 4: FINAL VALIDATION CHECKLIST**\<newline>'' @
    ''\<newline>'' @
    ''Before accepting any vulnerability, verify:\<newline>'' @
    ''\<newline>'' @
    ''1. **Scope Compliance**: Vulnerability affects only the 3 in-scope contracts\<newline>'' @
    ''2. **Not Known Issue**: Check against Halborn audit reports\<newline>'' @
    ''3. **Trust Model**: Exploit doesn't require THORChain oracle or Deployer Multisig compromise\<newline>'' @
    ''4. **Impact Severity**: Meets Critical/High/Medium per Code4rena scope\<newline>'' @
    ''5. **Economic Incentive**: Attack must be profitable for attacker\<newline>'' @
    ''6. **Technical Feasibility**: Exploit can be implemented without protocol modifications\<newline>'' @
    ''7. **Invariant Violation**: Clearly breaks one of the 10 documented Rujira invariants\<newline>'' @
    ''8. **PoC Completeness**: Rust test runs successfully against unmodified codebase\<newline>'' @
    ''\<newline>''"

text \<open>Source lines 650 to 668.\<close>
definition validation_format_l650_l668 :: string where
  "validation_format_l650_l668 =
    ''**Remember**: False positives harm credibility. Assume claims are invalid until overwhelming evidence proves otherwise.\<newline>'' @
    ''\<newline>'' @
    ''---\<newline>'' @
    ''\<newline>'' @
    ''**AUDIT REPORT FORMAT** (if vulnerability found):  \<newline>'' @
    ''  \<newline>'' @
    ''Audit Report  \<newline>'' @
    ''  \<newline>'' @
    ''## Title   \<newline>'' @
    ''The Title Of the Report   \<newline>'' @
    ''  \<newline>'' @
    ''## Summary  \<newline>'' @
    ''A short summary of the issue, keep it brief.  \<newline>'' @
    ''  \<newline>'' @
    ''## Finding Description  \<newline>'' @
    ''A more detailed explanation of the issue. Poorly written or incorrect findings may result in rejection and a decrease of reputation score.  \<newline>'' @
    ''  \<newline>'' @
    ''Describe which security guarantees it breaks and how it breaks them. If this bug does not automatically happen, showcase how a malicious input would propagate through the system to the part of the code where the issue occurs.  \<newline>'' @
    ''  \<newline>''"

text \<open>Source lines 669 to 689.\<close>
definition validation_format_l669_l689 :: string where
  "validation_format_l669_l689 =
    ''## Impact Explanation  \<newline>'' @
    ''Elaborate on why you've chosen a particular impact assessment.  \<newline>'' @
    ''  \<newline>'' @
    ''## Likelihood Explanation  \<newline>'' @
    ''Explain how likely this is to occur and why.  \<newline>'' @
    ''  \<newline>'' @
    ''## Recommendation  \<newline>'' @
    ''How can the issue be fixed or solved. Preferably, you can also add a snippet of the fixed code here.  \<newline>'' @
    ''  \<newline>'' @
    ''## Proof of Concept  \<newline>'' @
    ''A proof of concept is normally required for Critical, High and Medium Submissions for reviewers under 80 reputation points. Please check the competition page for more details, otherwise your submission may be rejected by the judges.  \<newline>'' @
    ''Very important the test function using their test must be provided in here and pls it must be able to compile and run successfully  \<newline>'' @
    ''  \<newline>'' @
    ''**Remember**: False positives harm credibility more than missed findings.  Assume claims are invalid until overwhelming evidence proves otherwise.  \<newline>'' @
    ''  \<newline>'' @
    ''**Now perform STRICT validation of the claim above.**  \<newline>'' @
    ''  \<newline>'' @
    ''**Output ONLY:**  \<newline>'' @
    ''- A full audit report (if genuinely valid after passing **all** checks above) following the specified format  \<newline>'' @
    ''- `#NoVulnerability found for this question.` (if **any** check fails)  very important \<newline>'' @
    ''  \<newline>''"

text \<open>Source line 690.\<close>
definition validation_format_l690 :: string where
  "validation_format_l690 =
    ''**Be ruthlessly skeptical.  The bar for validity is EXTREMELY valid.**  \<newline>''"

text \<open>The literal text after field 1 of the f-string of \<open>validation_format\<close>.\<close>
definition validation_format_text_1 :: string where
  "validation_format_text_1 =
    validation_format_l363_a @
    validation_format_l364_l383 @
    validation_format_l384_l404 @
    validation_format_l405_l424 @
    validation_format_l425_l452 @
    validation_format_l453_l474 @
    validation_format_l475_l495 @
    validation_format_l496_l516 @
    validation_format_l517_l540 @
    validation_format_l541_l563 @
    validation_format_l564_l585 @
    validation_format_l586_l605 @
    validation_format_l606_l625 @
    validation_format_l626_l649 @
    validation_format_l650_l668 @
    validation_format_l669_l689 @
    validation_format_l690"

text \<open>
  The f-string assigned to \<^verbatim>\<open>prompt\<close>: its constant texts and its one formatted value,
  in source order (it stands on source line 363).
\<close>
definition validation_format_prompt :: "fstring_part list" where
  "validation_format_prompt =
    [Constant validation_format_text_0,
     FormattedValue ''report'',
     Constant validation_format_text_1]"

text \<open>
  \<^verbatim>\<open>validation_format(report)\<close>: the f-string is evaluated with the parameter as the only local
  variable, and returned.
\<close>
definition validation_format :: "(pyobj \<Rightarrow> string) \<Rightarrow> namespace \<Rightarrow> string \<Rightarrow> exn + string" where
  "validation_format str_of globals report =
     JoinedStr str_of globals [''report'' \<mapsto> PyStr report] validation_format_prompt"

subsection \<open>Question-generation prompt: \<^verbatim>\<open>question_generator\<close> (source lines 695 to 947)\<close>

text \<open>Source lines 706 to 717, up to the field on line 717.\<close>
definition question_generator_l706_l717 :: string where
  "question_generator_l706_l717 =
    ''\<newline>'' @
    ''# **Generate 150+ Targeted Security Audit Questions for Rujira Protocol**\<newline>'' @
    ''\<newline>'' @
    ''## **Context**\<newline>'' @
    ''\<newline>'' @
    ''The target project is **Rujira**, an overcollateralized lending protocol built on THORChain using CosmWasm. The protocol enables users to deposit THORChain secured assets as collateral and borrow against them through a sophisticated three-contract system. Unlike traditional lending protocols, Rujira employs isolated accounting through individual `rujira-account` instances, orchestrated by a `rujira-ghost-credit` registry, with assets held in `rujira-ghost-vault` lending pools. The protocol maintains solvency through dynamic LTV calculations, collateral ratio haircuts, and permissionless liquidation mechanisms, while supporting complex features like multi-collateral accounts, cross-collateralization, and adaptive interest rates.\<newline>'' @
    ''\<newline>'' @
    ''Rujira's architecture includes critical components for account creation, collateral management, borrowing operations, liquidation handling, interest accrual, and access control through the sudo pattern. The protocol maintains financial integrity through strict ownership validation, real-time LTV enforcement, and comprehensive asset accounting across all three contracts.\<newline>'' @
    ''\<newline>'' @
    ''## **Scope**\<newline>'' @
    ''\<newline>'' @
    ''**CRITICAL TARGET FILE**: Focus question generation EXCLUSIVELY on `''"

text \<open>The literal text before field 1 of the f-string of \<open>question_generator\<close>.\<close>
definition question_generator_text_0 :: string where
  "question_generator_text_0 =
    question_generator_l706_l717"

text \<open>Source lines 717 to 719, from after the field on line 717 to before the field on line 719.\<close>
definition question_generator_l717_l719 :: string where
  "question_generator_l717_l719 =
    ''`\<newline>'' @
    ''\<newline>'' @
    ''Note: The questions must be generated from **`''"

text \<open>The literal text between fields 1 and 2 of the f-string of \<open>question_generator\<close>.\<close>
definition question_generator_text_1 :: string where
  "question_generator_text_1 =
    question_generator_l717_l719"

text \<open>Source lines 719 to 741, from after the field on line 719.\<close>
definition question_generator_l719_l741 :: string where
  "question_generator_l719_l741 =
    ''`** only. If you cannot generate enough questions from this single file, provide as many quality questions as you can extract from the file's logic and interactions. **DO NOT return empty results** - give whatever questions you can derive from the target file.\<newline>'' @
    ''\<newline>'' @
    ''If you cannot reach 150 questions from this file alone, generate as many high-quality questions as the file's complexity allows (minimum target: 50-100 questions for large critical files, 20-50 for smaller files).\<newline>'' @
    ''\<newline>'' @
    ''**Full Context - 3 In-Scope Files (for reference only):**\<newline>'' @
    ''If a file is more than a thousand lines you can generate as many as 300+ questions as you can, but always generate as many as you can - don't give other responses.\<newline>'' @
    ''If there are math logic functions, also generate as many questions based on all the math logic among the questions you're giving me to cover all scope and entry points.\<newline>'' @
    ''\<newline>'' @
    ''### **Core Protocol Contracts - 3 files**\<newline>'' @
    ''\<newline>'' @
    ''```python\<newline>'' @
    ''core_files = [\<newline>'' @
    ''    \"contracts/rujira-account/src/contract.rs\",        # sudo pattern, isolated accounting\<newline>'' @
    ''    \"contracts/rujira-account/src/execute.rs\",         # message forwarding\<newline>'' @
    ''    \"contracts/rujira-ghost-credit/src/contract.rs\",   # registry, orchestration\<newline>'' @
    ''    \"contracts/rujira-ghost-credit/src/account.rs\",     # LTV calculations\<newline>'' @
    ''    \"contracts/rujira-ghost-credit/src/config.rs\",      # protocol parameters\<newline>'' @
    ''    \"contracts/rujira-ghost-vault/src/contract.rs\",     # vault operations\<newline>'' @
    ''    \"contracts/rujira-ghost-vault/src/state.rs\",        # share accounting\<newline>'' @
    ''    \"contracts/rujira-ghost-vault/src/borrowers.rs\",    # borrower limits\<newline>'' @
    '']\<newline>'' @
    ''```\<newline>'' @
    ''\<newline>''"

text \<open>Source line 742, the text before the field.\<close>
definition question_generator_l742_a :: string where
  "question_generator_l742_a =
    ''**Total: 8 files in full scope (but focus ONLY on `''"

text \<open>The literal text between fields 2 and 3 of the f-string of \<open>question_generator\<close>.\<close>
definition question_generator_text_2 :: string where
  "question_generator_text_2 =
    question_generator_l719_l741 @
    question_generator_l742_a"

text \<open>Source lines 742 to 762, from after the field on line 742.\<close>
definition question_generator_l742_l762 :: string where
  "question_generator_l742_l762 =
    ''` for this generation)**\<newline>'' @
    ''\<newline>'' @
    ''---\<newline>'' @
    ''\<newline>'' @
    ''## **Rujira Protocol Architecture & Layers**\<newline>'' @
    ''\<newline>'' @
    ''### **1. Account Management Layer** (`rujira-account`)\<newline>'' @
    ''\<newline>'' @
    ''- **Sudo Pattern**: `rujira-account` instances only accept `sudo` calls from registry, rejecting all direct `execute` calls\<newline>'' @
    ''- **Isolated Accounting**: Each account is a separate contract instance with siloed balance tracking\<newline>'' @
    ''- **Message Forwarding**: Registry forwards operations through `SudoMsg` to account contracts\<newline>'' @
    ''- **Access Control**: Only registry can drive account-level operations and token transfers\<newline>'' @
    ''\<newline>'' @
    ''### **2. Credit Registry Layer** (`rujira-ghost-credit`)\<newline>'' @
    ''\<newline>'' @
    ''- **Account Orchestration**: Registry coordinates all account operations through `ExecuteMsg::Account`\<newline>'' @
    ''- **LTV Enforcement**: Real-time loan-to-value calculations with `adjusted_ltv` checks\<newline>'' @
    ''- **Liquidation Management**: Permissionless liquidation triggers and queue processing\<newline>'' @
    ''- **Vault Whitelisting**: Only approved vaults can be used for borrowing operations\<newline>'' @
    ''- **Configuration Validation**: All parameter changes validated through `Config::validate`\<newline>'' @
    ''\<newline>''"

text \<open>Source lines 763 to 782.\<close>
definition question_generator_l763_l782 :: string where
  "question_generator_l763_l782 =
    ''### **3. Lending Vault Layer** (`rujira-ghost-vault`)\<newline>'' @
    ''\<newline>'' @
    ''- **Share-Based Accounting**: ERC4626-style vault with `totalAssets()` and `totalSupply()` tracking\<newline>'' @
    ''- **Interest Distribution**: Always-accrued interest model with `distribute_interest()` on every operation\<newline>'' @
    ''- **Borrower Management**: Whitelisted borrowers with USD value limits per borrower\<newline>'' @
    ''- **Asset Management**: Deposit, withdraw, borrow, and repay operations with proper accounting\<newline>'' @
    ''\<newline>'' @
    ''---\<newline>'' @
    ''\<newline>'' @
    ''## **Critical Security Invariants**\<newline>'' @
    ''\<newline>'' @
    ''### **Access Control & Ownership**\<newline>'' @
    ''\<newline>'' @
    ''1. **Owner-Gated Accounts**: Only `account.owner` can initiate operations via `ExecuteMsg::Account`\<newline>'' @
    ''2. **Admin-Only Accounts**: `rujira-account` instances only accept `sudo` calls from registry\<newline>'' @
    ''3. **Governance-Whitelisted Borrowers**: Only pre-approved contracts can borrow from vaults\<newline>'' @
    ''4. **Whitelisted Vault Access**: Registry only routes to vaults listed in `collateral_ratios`\<newline>'' @
    ''\<newline>'' @
    ''### **LTV & Solvency**\<newline>'' @
    ''\<newline>''"

text \<open>Source lines 783 to 802.\<close>
definition question_generator_l783_l802 :: string where
  "question_generator_l783_l802 =
    ''5. **Post-Adjustment LTV Check**: After any owner operation, `adjusted_ltv` must be `< adjustment_threshold`\<newline>'' @
    ''6. **Safe Liquidation Outcomes**: Liquidations only trigger when `adjusted_ltv >= liquidation_threshold`\<newline>'' @
    ''7. **Borrow Limit Enforcement**: Each borrower has a maximum USD value they can borrow\<newline>'' @
    ''8. **Bounded Config Values**: All configuration changes validated via `Config::validate`\<newline>'' @
    ''\<newline>'' @
    ''### **Financial Integrity**\<newline>'' @
    ''\<newline>'' @
    ''9. **Fee-First Liquidation Repay**: Protocol and liquidator fees extracted before debt repayment\<newline>'' @
    ''10. **Always-Accrued Interest**: `distribute_interest()` called before all operations\<newline>'' @
    ''11. **Collateral Ratio Haircuts**: Each collateral type has a `collateral_ratio` haircut for risk management\<newline>'' @
    ''12. **Cross-Collateral Limits**: Cross-buffer ratio scales conservatively with utilization\<newline>'' @
    ''\<newline>'' @
    ''---\<newline>'' @
    ''\<newline>'' @
    ''## **In-Scope Vulnerability Categories** (from Code4rena)\<newline>'' @
    ''\<newline>'' @
    ''Focus questions on vulnerabilities that lead to these impacts:\<newline>'' @
    ''\<newline>'' @
    ''### **Critical Severity**\<newline>'' @
    ''\<newline>''"

text \<open>Source lines 803 to 822.\<close>
definition question_generator_l803_l822 :: string where
  "question_generator_l803_l822 =
    ''1. **Direct loss of funds**\<newline>'' @
    ''   - LTV calculation errors allowing undercollateralized borrowing\<newline>'' @
    ''   - Share price manipulation allowing asset drainage from vaults\<newline>'' @
    ''   - Interest accrual bugs causing unlimited asset minting\<newline>'' @
    ''   - Access control bypasses enabling unauthorized borrowing\<newline>'' @
    ''\<newline>'' @
    ''2. **Permanent freezing of funds**\<newline>'' @
    ''   - Account bricking preventing collateral withdrawal\<newline>'' @
    ''   - Share supply overflow preventing all vault operations\<newline>'' @
    ''   - Interest state corruption blocking position closures\<newline>'' @
    ''   - Invalid account states locking funds permanently\<newline>'' @
    ''\<newline>'' @
    ''3. **Protocol insolvency**\<newline>'' @
    ''   - Collateral requirement calculation errors\<newline>'' @
    ''   - Liquidation bonus extraction causing protocol loss\<newline>'' @
    ''   - Cross-collateralization bugs causing systemic undercollateralization\<newline>'' @
    ''   - Premium settlement errors causing fund drainage\<newline>'' @
    ''\<newline>'' @
    ''### **High Severity**\<newline>'' @
    ''\<newline>''"

text \<open>Source lines 823 to 842.\<close>
definition question_generator_l823_l842 :: string where
  "question_generator_l823_l842 =
    ''4. **Temporary freezing of funds**\<newline>'' @
    ''   - Liquidation failures preventing account closures\<newline>'' @
    ''   - Oracle stale prices blocking all operations\<newline>'' @
    ''   - Interest accrual overflow preventing withdrawals\<newline>'' @
    ''   - Account transfer restrictions bypassed incorrectly\<newline>'' @
    ''\<newline>'' @
    ''5. **Incorrect protocol behavior**\<newline>'' @
    ''   - LTV calculation errors producing wrong solvency results\<newline>'' @
    ''   - Interest distribution bugs favoring certain users\<newline>'' @
    ''   - Borrower limit bypasses through delegate borrowing\<newline>'' @
    ''   - Vault configuration errors\<newline>'' @
    ''\<newline>'' @
    ''### **Medium Severity**\<newline>'' @
    ''\<newline>'' @
    ''6. **Economic manipulation**\<newline>'' @
    ''   - Interest rate manipulation through utilization attacks\<newline>'' @
    ''   - Liquidation bonus extraction beyond intended amounts\<newline>'' @
    ''   - Share price manipulation in vaults\<newline>'' @
    ''   - Gas griefing through expensive operations\<newline>'' @
    ''\<newline>''"

text \<open>Source lines 843 to 861.\<close>
definition question_generator_l843_l861 :: string where
  "question_generator_l843_l861 =
    ''7. **State inconsistencies**\<newline>'' @
    ''   - Asset accounting mismatches between contracts\<newline>'' @
    ''   - Interest index calculation inaccuracies\<newline>'' @
    ''   - Account balance tracking errors\<newline>'' @
    ''   - Oracle state divergence\<newline>'' @
    ''\<newline>'' @
    ''---\<newline>'' @
    ''\<newline>'' @
    ''## **Valid Impact Categories (Restated for Rujira)**\<newline>'' @
    ''\<newline>'' @
    ''### **Critical**\<newline>'' @
    ''\<newline>'' @
    ''- Direct theft of user collateral or vault assets\<newline>'' @
    ''- Permanent fund freezing requiring protocol redeployment\<newline>'' @
    ''- Protocol insolvency leading to systemic loss\<newline>'' @
    ''- Unlimited asset minting or share price collapse\<newline>'' @
    ''\<newline>'' @
    ''### **High**\<newline>'' @
    ''\<newline>''"

text \<open>Source lines 862 to 882.\<close>
definition question_generator_l862_l882 :: string where
  "question_generator_l862_l882 =
    ''- Temporary fund freezing with economic loss\<newline>'' @
    ''- Systemic undercollateralization risks\<newline>'' @
    ''- Widespread account liquidations due to bugs\<newline>'' @
    ''- Access control bypasses enabling theft\<newline>'' @
    ''\<newline>'' @
    ''### **Medium**\<newline>'' @
    ''\<newline>'' @
    ''- Economic manipulation benefiting attackers\<newline>'' @
    ''- State inconsistencies requiring manual intervention\<newline>'' @
    ''- Interest or fee calculation errors\<newline>'' @
    ''- DoS vulnerabilities affecting core functionality\<newline>'' @
    ''\<newline>'' @
    ''### **Out of Scope**\<newline>'' @
    ''\<newline>'' @
    ''- Gas optimization inefficiencies\<newline>'' @
    ''- UI/UX issues in frontends\<newline>'' @
    ''- Market risk (price movements)\<newline>'' @
    ''- THORChain network failures\<newline>'' @
    ''- MEV or front-running attacks\<newline>'' @
    ''- Theoretical attacks without economic impact\<newline>'' @
    ''\<newline>''"

text \<open>Source lines 883 to 888, up to the field on line 888.\<close>
definition question_generator_l883_l888 :: string where
  "question_generator_l883_l888 =
    ''---\<newline>'' @
    ''\<newline>'' @
    ''## **Goals for Question Generation**\<newline>'' @
    ''\<newline>'' @
    ''1. **Real Exploit Scenarios**: Each question describes a plausible attack an attacker, liquidator, or malicious user could perform\<newline>'' @
    ''2. **Concrete & Actionable**: Reference specific functions, variables, or logic flows in `''"

text \<open>The literal text between fields 3 and 4 of the f-string of \<open>question_generator\<close>.\<close>
definition question_generator_text_3 :: string where
  "question_generator_text_3 =
    question_generator_l742_l762 @
    question_generator_l763_l782 @
    question_generator_l783_l802 @
    question_generator_l803_l822 @
    question_generator_l823_l842 @
    question_generator_l843_l861 @
    question_generator_l862_l882 @
    question_generator_l883_l888"

text \<open>Source lines 888 to 891, from after the field on line 888 to before the field on line 891.\<close>
definition question_generator_l888_l891 :: string where
  "question_generator_l888_l891 =
    ''`\<newline>'' @
    ''3. **High Impact**: Prioritize questions leading to Critical/High/Medium impacts per Code4rena scope\<newline>'' @
    ''4. **Deep Financial Logic**: Focus on subtle state transitions, cross-contract interactions, rounding errors, LTV calculation bugs\<newline>'' @
    ''5. **Breadth Within Target File**: Cover all major functions, edge cases, and state-changing operations in `''"

text \<open>The literal text between fields 4 and 5 of the f-string of \<open>question_generator\<close>.\<close>
definition question_generator_text_4 :: string where
  "question_generator_text_4 =
    question_generator_l888_l891"

text \<open>Source lines 891 to 893, from after the field on line 891 to before the field on line 893.\<close>
definition question_generator_l891_l893 :: string where
  "question_generator_l891_l893 =
    ''`\<newline>'' @
    ''6. **Respect Trust Model**: THORChain oracles and Rujira Deployer Multisig are trusted; focus on attacks by regular users\<newline>'' @
    ''7. **No Generic Questions**: Avoid \"are there access control issues?\" '' @ rightwards_arrow @ '' Instead: \"In `''"

text \<open>The literal text between fields 5 and 6 of the f-string of \<open>question_generator\<close>.\<close>
definition question_generator_text_5 :: string where
  "question_generator_text_5 =
    question_generator_l891_l893"

text \<open>Source lines 893 to 902, from after the field on line 893.\<close>
definition question_generator_l893_l902 :: string where
  "question_generator_l893_l902 =
    '': functionName()`, if condition X occurs, can attacker exploit Y to cause Z impact?\"\<newline>'' @
    ''\<newline>'' @
    ''---\<newline>'' @
    ''\<newline>'' @
    ''## **Question Format Template**\<newline>'' @
    ''\<newline>'' @
    ''Each question MUST follow this Python list format:\<newline>'' @
    ''\<newline>'' @
    ''```python\<newline>'' @
    ''questions = [\<newline>''"

text \<open>Source line 903, the text before the field.\<close>
definition question_generator_l903_a :: string where
  "question_generator_l903_a =
    ''    \"[File: ''"

text \<open>The literal text between fields 6 and 7 of the f-string of \<open>question_generator\<close>.\<close>
definition question_generator_text_6 :: string where
  "question_generator_text_6 =
    question_generator_l893_l902 @
    question_generator_l903_a"

text \<open>Source lines 903 to 904, from after the field on line 903.\<close>
definition question_generator_l903_l904 :: string where
  "question_generator_l903_l904 =
    ''] [Function: functionName()] [Vulnerability Type] Specific question describing attack vector, preconditions, and impact linking to Code4rena categories?\",\<newline>'' @
    ''    \<newline>''"

text \<open>Source line 905, the text before the field.\<close>
definition question_generator_l905_a :: string where
  "question_generator_l905_a =
    ''    \"[File: ''"

text \<open>The literal text between fields 7 and 8 of the f-string of \<open>question_generator\<close>.\<close>
definition question_generator_text_7 :: string where
  "question_generator_text_7 =
    question_generator_l903_l904 @
    question_generator_l905_a"

text \<open>Source line 905, the text after the field.\<close>
definition question_generator_l905_b :: string where
  "question_generator_l905_b =
    ''] [Function: anotherFunction()] [Vulnerability Type] Another specific question with concrete exploit scenario?\",\<newline>''"

text \<open>Source lines 906 to 913.\<close>
definition question_generator_l906_l913 :: string where
  "question_generator_l906_l913 =
    ''    \<newline>'' @
    ''    # ... continue with all generated questions\<newline>'' @
    '']\<newline>'' @
    ''```\<newline>'' @
    ''\<newline>'' @
    ''**Example Format** (if target_file is `contracts/rujira-ghost-credit/src/contract.rs`):\<newline>'' @
    ''```python\<newline>'' @
    ''questions = [\<newline>''"

text \<open>Source line 914.\<close>
definition question_generator_l914 :: string where
  "question_generator_l914 =
    ''    \"[File: contracts/rujira-ghost-credit/src/contract.rs] [Function: execute()] [LTV bypass] Can an attacker craft a malicious AccountMsg sequence that passes initial ownership checks but manipulates collateral prices between operations to bypass adjusted_ltv validation, allowing them to open undercollateralized positions and potentially drain vault funds?\",\<newline>''"

text \<open>Source lines 915 to 926, up to the field on line 926.\<close>
definition question_generator_l915_l926 :: string where
  "question_generator_l915_l926 =
    ''    \<newline>'' @
    ''    \"[File: contracts/rujira-ghost-credit/src/contract.rs] [Function: liquidate()] [Liquidation manipulation] Does the liquidation queue correctly handle edge cases where asset prices fluctuate during liquidation, potentially allowing liquidators to extract higher bonuses than intended or leaving accounts in unsafe states?\",\<newline>'' @
    ''    \<newline>'' @
    ''    \"[File: contracts/rujira-ghost-credit/src/contract.rs] [Function: create_account()] [Access control] Can an attacker bypass the account creation validation to create accounts with invalid configurations, potentially leading to account bricking or unauthorized access to borrowed funds?\",\<newline>'' @
    '']\<newline>'' @
    ''```\<newline>'' @
    ''\<newline>'' @
    ''---\<newline>'' @
    ''\<newline>'' @
    ''## **Output Requirements**\<newline>'' @
    ''\<newline>'' @
    ''Generate security audit questions focusing EXCLUSIVELY on **`''"

text \<open>The literal text between fields 8 and 9 of the f-string of \<open>question_generator\<close>.\<close>
definition question_generator_text_8 :: string where
  "question_generator_text_8 =
    question_generator_l905_b @
    question_generator_l906_l913 @
    question_generator_l914 @
    question_generator_l915_l926"

text \<open>Source lines 926 to 928, from after the field on line 926 to before the field on line 928.\<close>
definition question_generator_l926_l928 :: string where
  "question_generator_l926_l928 =
    ''`** that:\<newline>'' @
    ''\<newline>'' @
    ''1. **Target ONLY `''"

text \<open>The literal text between fields 9 and 10 of the f-string of \<open>question_generator\<close>.\<close>
definition question_generator_text_9 :: string where
  "question_generator_text_9 =
    question_generator_l926_l928"

text \<open>Source lines 928 to 929, from after the field on line 928 to before the field on line 929.\<close>
definition question_generator_l928_l929 :: string where
  "question_generator_l928_l929 =
    ''`** - all questions must reference this file\<newline>'' @
    ''2. **Reference specific functions, variables, or logic sections** within `''"

text \<open>The literal text between fields 10 and 11 of the f-string of \<open>question_generator\<close>.\<close>
definition question_generator_text_10 :: string where
  "question_generator_text_10 =
    question_generator_l928_l929"

text \<open>Source lines 929 to 930, from after the field on line 929 to before the field on line 930.\<close>
definition question_generator_l929_l930 :: string where
  "question_generator_l929_l930 =
    ''`\<newline>'' @
    ''3. **Describe concrete attack vectors** (not \"could there be a bug?\" but \"can attacker do X by exploiting Y in `''"

text \<open>The literal text between fields 11 and 12 of the f-string of \<open>question_generator\<close>.\<close>
definition question_generator_text_11 :: string where
  "question_generator_text_11 =
    question_generator_l929_l930"

text \<open>Source lines 930 to 933, from after the field on line 930 to before the field on line 933.\<close>
definition question_generator_l930_l933 :: string where
  "question_generator_l930_l933 =
    ''`?\")\<newline>'' @
    ''4. **Tie to Code4rena impact categories** (fund loss, freezing, insolvency, manipulation, DoS)\<newline>'' @
    ''5. **Respect trust model** (THORChain oracles and Deployer Multisig are trusted; focus on user/attacker actions)\<newline>'' @
    ''6. **Cover diverse attack surfaces** within `''"

text \<open>The literal text between fields 12 and 13 of the f-string of \<open>question_generator\<close>.\<close>
definition question_generator_text_12 :: string where
  "question_generator_text_12 =
    question_generator_l930_l933"

text \<open>Source lines 933 to 945, from after the field on line 933 to before the field on line 945.\<close>
definition question_generator_l933_l945 :: string where
  "question_generator_l933_l945 =
    ''`: validation logic, state transitions, error handling, edge cases, interactions with other contracts\<newline>'' @
    ''7. **Focus on high-severity bugs**: prioritize Critical > High > Medium impacts\<newline>'' @
    ''8. **Avoid out-of-scope issues**: gas optimization, UI bugs, theoretical attacks without economic impact\<newline>'' @
    ''9. **Use the exact Python list format** shown above\<newline>'' @
    ''10. **Be detailed and technical**: assume auditor has deep DeFi knowledge; use precise terminology\<newline>'' @
    ''\<newline>'' @
    ''**Target Question Count:**\<newline>'' @
    ''- For large critical files (>500 lines like contract.rs files): Aim for 100-200 questions\<newline>'' @
    ''- For medium files (-500 lines like state.rs, account.rs): Aim for 50-100 questions  \<newline>'' @
    ''- For smaller files (< lines like config.rs, execute.rs): Aim for 20-50 questions\<newline>'' @
    ''- **Provide as many quality questions as the file's complexity allows - do NOT return empty results**\<newline>'' @
    ''\<newline>'' @
    ''**Begin generating questions for `''"

text \<open>The literal text between fields 13 and 14 of the f-string of \<open>question_generator\<close>.\<close>
definition question_generator_text_13 :: string where
  "question_generator_text_13 =
    question_generator_l933_l945"

text \<open>Source line 945, the text after the field.\<close>
definition question_generator_l945_a :: string where
  "question_generator_l945_a =
    ''` now.\<newline>''"

text \<open>The literal text after field 14 of the f-string of \<open>question_generator\<close>.\<close>
definition question_generator_text_14 :: string where
  "question_generator_text_14 =
    question_generator_l945_a"

text \<open>
  The f-string assigned to \<^verbatim>\<open>prompt\<close>: its constant texts and its 14 formatted values,
  in source order (they stand on source lines 717, 719, 742, 888, 891, 893, 903, 905, 926, 928, 929, 930, 933, 945).
\<close>
definition question_generator_prompt :: "fstring_part list" where
  "question_generator_prompt =
    [Constant question_generator_text_0,
     FormattedValue ''target_file'',
     Constant question_generator_text_1,
     FormattedValue ''target_file'',
     Constant question_generator_text_2,
     FormattedValue ''target_file'',
     Constant question_generator_text_3,
     FormattedValue ''target_file'',
     Constant question_generator_text_4,
     FormattedValue ''target_file'',
     Constant question_generator_text_5,
     FormattedValue ''target_file'',
     Constant question_generator_text_6,
     FormattedValue ''target_file'',
     Constant question_generator_text_7,
     FormattedValue ''target_file'',
     Constant question_generator_text_8,
     FormattedValue ''target_file'',
     Constant question_generator_text_9,
     FormattedValue ''target_file'',
     Constant question_generator_text_10,
     FormattedValue ''target_file'',
     Constant question_generator_text_11,
     FormattedValue ''target_file'',
     Constant question_generator_text_12,
     FormattedValue ''target_file'',
     Constant question_generator_text_13,
     FormattedValue ''target_file'',
     Constant question_generator_text_14]"

text \<open>
  \<^verbatim>\<open>question_generator(target_file)\<close>: the f-string is evaluated with the parameter as the only local
  variable, and returned.
\<close>
definition question_generator :: "(pyobj \<Rightarrow> string) \<Rightarrow> namespace \<Rightarrow> string \<Rightarrow> exn + string" where
  "question_generator str_of globals target_file =
     JoinedStr str_of globals [''target_file'' \<mapsto> PyStr target_file] question_generator_prompt"

section \<open>Reading a template and a document\<close>

text \<open>The names of the formatted values of an f-string, in source order.\<close>

definition names_of :: "fstring_part list \<Rightarrow> string list" where
  "names_of ps =
     concat (map (\<lambda>p. case p of Constant s \<Rightarrow> [] | FormattedValue name \<Rightarrow> [name]) ps)"

text \<open>
  The lines of a document, as \<^verbatim>\<open>d.split("\n")\<close> gives them: line \<open>k\<close> of a composed
  document (counted from 0) comes from the source line \<open>k\<close> lines below the one that
  opens the f-string.
\<close>

primrec split_nl :: "string \<Rightarrow> string list" where
  "split_nl [] = [[]]"
| "split_nl (c # cs) =
     (if c = CHR 0x0A then [] # split_nl cs
      else (case split_nl cs of [] \<Rightarrow> [[c]] | l # ls \<Rightarrow> (c # l) # ls))"

text \<open>A text that ends with a newline (its last line is complete).\<close>

fun ends_nl :: "string \<Rightarrow> bool" where
  "ends_nl [] = False"
| "ends_nl [c] = (c = CHR 0x0A)"
| "ends_nl (c # d # cs) = ends_nl (d # cs)"

text \<open>
  The expected shape of the corpus resource: a sequence each of whose members is a
  question, that is, a string.
\<close>

definition question_sequence :: "pyobj \<Rightarrow> bool" where
  "question_sequence v =
     (case v of
        PyList xs \<Rightarrow> list_all (\<lambda>x. case x of PyStr s \<Rightarrow> True | _ \<Rightarrow> False) xs
      | _ \<Rightarrow> False)"

text \<open>A path of the registry is in scope: not empty, and under one of the three source directories.\<close>

definition in_scope :: "string \<Rightarrow> bool" where
  "in_scope path =
     (path \<noteq> [] \<and>
      (prefix ''contracts/rujira-account/src/'' path \<or>
       prefix ''contracts/rujira-ghost-credit/src/'' path \<or>
       prefix ''contracts/rujira-ghost-vault/src/'' path))"

section \<open>What the composers return\<close>

lemma question_format_document:
  "question_format str_of globals q =
     Inr (question_format_text_0 @ q @ question_format_text_1)"
  by (simp add: question_format_def question_format_prompt_def load_name_def format_value_def)

lemma validation_format_document:
  "validation_format str_of globals r =
     Inr (validation_format_text_0 @ r @ validation_format_text_1)"
  by (simp add: validation_format_def validation_format_prompt_def load_name_def format_value_def)

lemma question_generator_document:
  "question_generator str_of globals p =
     Inr (question_generator_text_0 @ p @ question_generator_text_1 @ p @
          question_generator_text_2 @ p @ question_generator_text_3 @ p @
          question_generator_text_4 @ p @ question_generator_text_5 @ p @
          question_generator_text_6 @ p @ question_generator_text_7 @ p @
          question_generator_text_8 @ p @ question_generator_text_9 @ p @
          question_generator_text_10 @ p @ question_generator_text_11 @ p @
          question_generator_text_12 @ p @ question_generator_text_13 @ p @
          question_generator_text_14)"
  by (simp add: question_generator_def question_generator_prompt_def load_name_def format_value_def)

lemma names_of_question_format: "names_of question_format_prompt = [''question'']"
  by (simp add: names_of_def question_format_prompt_def)

lemma names_of_validation_format: "names_of validation_format_prompt = [''report'']"
  by (simp add: names_of_def validation_format_prompt_def)

lemma names_of_question_generator:
  "names_of question_generator_prompt = replicate 14 ''target_file''"
  by (simp add: names_of_def question_generator_prompt_def numeral_eq_Suc)

text \<open>
  An f-string all of whose names are local variables never raises, and the module's
  globals play no part in its value.
\<close>

lemma JoinedStr_locals:
  "set (names_of ps) \<subseteq> dom locals \<Longrightarrow>
     \<exists>d. JoinedStr str_of globals locals ps = Inr d \<and>
         JoinedStr str_of globals' locals ps = Inr d"
proof (induction ps)
  case Nil
  show ?case by simp
next
  case (Cons p ps)
  from Cons.prems have "set (names_of ps) \<subseteq> dom locals"
    by (cases p) (auto simp: names_of_def)
  with Cons.IH obtain d where d:
    "JoinedStr str_of globals locals ps = Inr d" "JoinedStr str_of globals' locals ps = Inr d"
    by blast
  show ?case
  proof (cases p)
    case (Constant s)
    with d show ?thesis by simp
  next
    case (FormattedValue name)
    with Cons.prems have "name \<in> dom locals" by (simp add: names_of_def)
    then obtain v where "locals name = Some v" by blast
    with d FormattedValue show ?thesis by (simp add: load_name_def)
  qed
qed

section \<open>Lines of a document\<close>

lemma split_nl_not_Nil: "split_nl s \<noteq> []"
  by (induction s) (auto split: list.splits)

lemma length_split_nl: "length (split_nl s) = Suc (count_list s (CHR 0x0A))"
  by (induction s) (auto split: list.splits simp: split_nl_not_Nil)

lemma split_nl_append_nl: "split_nl (a @ CHR 0x0A # b) = split_nl a @ split_nl b"
proof (induction a)
  case Nil
  show ?case by simp
next
  case (Cons c a)
  obtain l ls where "split_nl a = l # ls"
    using split_nl_not_Nil [of a] by (cases "split_nl a") auto
  with Cons show ?case by simp
qed

lemma ends_nl_snoc: "ends_nl s \<Longrightarrow> \<exists>s0. s = s0 @ [CHR 0x0A]"
proof (induction s rule: ends_nl.induct)
  case 1
  then show ?case by simp
next
  case (2 c)
  then show ?case by simp
next
  case (3 c d cs)
  then obtain s0 where "d # cs = s0 @ [CHR 0x0A]" by auto
  then have "c # d # cs = (c # s0) @ [CHR 0x0A]" by simp
  then show ?case by blast
qed

lemma ends_nl_append: "ends_nl b \<Longrightarrow> ends_nl (a @ b)"
proof (induction a)
  case Nil
  then show ?case by simp
next
  case (Cons c a)
  then have "ends_nl (a @ b)" by simp
  moreover from Cons.prems have "a @ b \<noteq> []" by auto
  ultimately show ?case by (cases "a @ b") auto
qed

text \<open>
  After a text \<open>a\<close> of complete lines, the lines of \<open>b\<close> follow: line \<open>j\<close> of \<open>b\<close> is
  line \<open>n + j\<close> of \<open>a @ b\<close>, where \<open>n\<close> is the number of newlines of \<open>a\<close>.
\<close>

lemma nth_split_nl_append:
  assumes "ends_nl a"
  shows "split_nl (a @ b) ! (count_list a (CHR 0x0A) + j) = split_nl b ! j"
proof -
  from assms obtain a0 where a: "a = a0 @ [CHR 0x0A]"
    using ends_nl_snoc by blast
  have "split_nl (a @ b) = split_nl a0 @ split_nl b"
    by (simp add: a split_nl_append_nl)
  moreover have "length (split_nl a0) = count_list a (CHR 0x0A)"
    by (simp add: a length_split_nl)
  ultimately show ?thesis
    by (simp add: nth_append)
qed

lemma first_line: "CHR 0x0A \<notin> set l \<Longrightarrow> split_nl (l @ CHR 0x0A # b) ! 0 = l"
proof (induction l)
  case Nil
  show ?case by simp
next
  case (Cons c l)
  obtain x xs where x: "split_nl (l @ CHR 0x0A # b) = x # xs"
    using split_nl_not_Nil [of "l @ CHR 0x0A # b"] by (cases "split_nl (l @ CHR 0x0A # b)") auto
  with Cons show ?case by auto
qed

text \<open>Counting the newlines of a literal text, one character at a time.\<close>

lemma count_list_Cons_of_bool: "count_list (c # cs) x = of_bool (c = x) + count_list cs x"
  by simp

lemma newlines_question_format_l050_l057: "count_list question_format_l050_l057 (CHR 0x0A) = 8"
  by (simp add: question_format_l050_l057_def em_dash_def count_list_Cons_of_bool del: count_list.simps)

lemma newlines_question_format_l058_a: "count_list question_format_l058_a (CHR 0x0A) = 0"
  by (simp add: question_format_l058_a_def count_list_Cons_of_bool del: count_list.simps)

lemma newlines_question_format_l058_b: "count_list question_format_l058_b (CHR 0x0A) = 1"
  by (simp add: question_format_l058_b_def count_list_Cons_of_bool del: count_list.simps)

lemma newlines_question_format_l059_l080: "count_list question_format_l059_l080 (CHR 0x0A) = 22"
  by (simp add: question_format_l059_l080_def count_list_Cons_of_bool del: count_list.simps)

lemma newlines_question_format_l081_l100: "count_list question_format_l081_l100 (CHR 0x0A) = 20"
  by (simp add: question_format_l081_l100_def count_list_Cons_of_bool del: count_list.simps)

lemma newlines_question_format_l101_l120: "count_list question_format_l101_l120 (CHR 0x0A) = 20"
  by (simp add: question_format_l101_l120_def count_list_Cons_of_bool del: count_list.simps)

lemma newlines_question_format_l121_l141: "count_list question_format_l121_l141 (CHR 0x0A) = 21"
  by (simp add: question_format_l121_l141_def em_dash_def rightwards_arrow_def count_list_Cons_of_bool del: count_list.simps)

lemma newlines_question_format_l142_l161: "count_list question_format_l142_l161 (CHR 0x0A) = 20"
  by (simp add: question_format_l142_l161_def count_list_Cons_of_bool del: count_list.simps)

lemma newlines_question_format_l162_l181: "count_list question_format_l162_l181 (CHR 0x0A) = 20"
  by (simp add: question_format_l162_l181_def count_list_Cons_of_bool del: count_list.simps)

lemma newlines_question_format_l182_l209: "count_list question_format_l182_l209 (CHR 0x0A) = 28"
  by (simp add: question_format_l182_l209_def count_list_Cons_of_bool del: count_list.simps)

lemma newlines_question_format_l210_l229: "count_list question_format_l210_l229 (CHR 0x0A) = 20"
  by (simp add: question_format_l210_l229_def count_list_Cons_of_bool del: count_list.simps)

lemma newlines_question_format_l230_l248: "count_list question_format_l230_l248 (CHR 0x0A) = 19"
  by (simp add: question_format_l230_l248_def count_list_Cons_of_bool del: count_list.simps)

lemma newlines_question_format_l249_l267: "count_list question_format_l249_l267 (CHR 0x0A) = 19"
  by (simp add: question_format_l249_l267_def count_list_Cons_of_bool del: count_list.simps)

lemma newlines_question_format_l268_l278: "count_list question_format_l268_l278 (CHR 0x0A) = 11"
  by (simp add: question_format_l268_l278_def count_list_Cons_of_bool del: count_list.simps)

lemma newlines_question_format_l279: "count_list question_format_l279 (CHR 0x0A) = 1"
  by (simp add: question_format_l279_def count_list_Cons_of_bool del: count_list.simps)

lemma ends_nl_question_format_l050_l057: "ends_nl question_format_l050_l057"
  by (simp add: question_format_l050_l057_def em_dash_def)

lemma ends_nl_question_format_l278: "ends_nl question_format_l268_l278"
  by (simp add: question_format_l268_l278_def)

lemma ends_nl_question_format_l279: "ends_nl question_format_l279"
  by (simp add: question_format_l279_def)

text \<open>
  The audit prompt for a question \<open>q\<close> with no newline: up to the line of the question,
  and up to the line that follows the instruction "state exactly:".
\<close>

lemma question_format_line_8:
  assumes "CHR 0x0A \<notin> set q"
  shows "split_nl (question_format_text_0 @ q @ question_format_text_1) ! 8 =
           ''**Security Question (scope for this run):** '' @ q @ ''  ''"
proof -
  define rest where "rest = drop 3 question_format_text_1"
  have t1: "question_format_text_1 = ''  '' @ CHR 0x0A # rest"
    by (simp add: rest_def question_format_text_1_def question_format_l058_b_def)
  have l: "CHR 0x0A \<notin> set (question_format_l058_a @ q @ ''  '')"
    using assms by (simp add: question_format_l058_a_def)
  have "question_format_text_0 @ q @ question_format_text_1 =
          question_format_l050_l057 @ ((question_format_l058_a @ q @ ''  '') @ CHR 0x0A # rest)"
    by (simp add: question_format_text_0_def t1)
  then have "split_nl (question_format_text_0 @ q @ question_format_text_1) ! 8 =
          split_nl ((question_format_l058_a @ q @ ''  '') @ CHR 0x0A # rest) ! 0"
    using nth_split_nl_append [OF ends_nl_question_format_l050_l057, of _ 0]
    by (simp add: newlines_question_format_l050_l057)
  also have "\<dots> = question_format_l058_a @ q @ ''  ''"
    using l by (rule first_line)
  finally show ?thesis
    by (simp add: question_format_l058_a_def)
qed

lemma question_format_lines_229_230:
  assumes "CHR 0x0A \<notin> set q"
  shows "split_nl (question_format_text_0 @ q @ question_format_text_1) ! 229 =
           ''If **no** valid vulnerability emerges after thorough investigation, state exactly:   ''"
    and "split_nl (question_format_text_0 @ q @ question_format_text_1) ! 230 =
           ''`#NoVulnerability found for this question.`  ''"
proof -
  define a where "a = question_format_l050_l057 @ question_format_l058_a @ q @
    question_format_l058_b @ question_format_l059_l080 @ question_format_l081_l100 @
    question_format_l101_l120 @ question_format_l121_l141 @ question_format_l142_l161 @
    question_format_l162_l181 @ question_format_l182_l209 @ question_format_l210_l229 @
    question_format_l230_l248 @ question_format_l249_l267 @ question_format_l268_l278"
  define b where "b = question_format_l281_l303 @ question_format_l304_l323 @
    question_format_l324_l342"
  have d: "question_format_text_0 @ q @ question_format_text_1 =
             a @ question_format_l279 @ question_format_l280 @ b"
    by (simp add: a_def b_def question_format_text_0_def question_format_text_1_def)
  have q0: "count_list q (CHR 0x0A) = 0"
    using assms by (simp add: count_list_0_iff)
  have na: "count_list a (CHR 0x0A) = 229"
    by (simp add: a_def q0 newlines_question_format_l050_l057 newlines_question_format_l058_a
        newlines_question_format_l058_b newlines_question_format_l059_l080
        newlines_question_format_l081_l100 newlines_question_format_l101_l120
        newlines_question_format_l121_l141 newlines_question_format_l142_l161
        newlines_question_format_l162_l181 newlines_question_format_l182_l209
        newlines_question_format_l210_l229 newlines_question_format_l230_l248
        newlines_question_format_l249_l267 newlines_question_format_l268_l278)
  have ea: "ends_nl a"
    unfolding a_def by (intro ends_nl_append) (rule ends_nl_question_format_l278)
  have l279: "question_format_l279 =
      ''If **no** valid vulnerability emerges after thorough investigation, state exactly:   '' @
      [CHR 0x0A]"
    by (simp add: question_format_l279_def)
  have l280: "question_format_l280 = ''`#NoVulnerability found for this question.`  '' @ [CHR 0x0A]"
    by (simp add: question_format_l280_def)
  have "split_nl (a @ question_format_l279 @ question_format_l280 @ b) ! (229 + 0) =
          split_nl (question_format_l279 @ question_format_l280 @ b) ! 0"
    using nth_split_nl_append [OF ea, of _ 0] by (simp add: na)
  also have "\<dots> =
      ''If **no** valid vulnerability emerges after thorough investigation, state exactly:   ''"
    unfolding l279 using first_line [of
      "''If **no** valid vulnerability emerges after thorough investigation, state exactly:   ''"
      "question_format_l280 @ b"]
    by simp
  finally show "split_nl (question_format_text_0 @ q @ question_format_text_1) ! 229 =
      ''If **no** valid vulnerability emerges after thorough investigation, state exactly:   ''"
    by (simp add: d)
  have ea': "ends_nl (a @ question_format_l279)"
    by (rule ends_nl_append) (rule ends_nl_question_format_l279)
  have na': "count_list (a @ question_format_l279) (CHR 0x0A) = 230"
    by (simp add: na newlines_question_format_l279)
  have "split_nl ((a @ question_format_l279) @ question_format_l280 @ b) ! (230 + 0) =
          split_nl (question_format_l280 @ b) ! 0"
    using nth_split_nl_append [OF ea', of _ 0] by (simp only: na')
  also have "\<dots> = ''`#NoVulnerability found for this question.`  ''"
    unfolding l280 using first_line [of "''`#NoVulnerability found for this question.`  ''" b]
    by simp
  finally show "split_nl (question_format_text_0 @ q @ question_format_text_1) ! 230 =
      ''`#NoVulnerability found for this question.`  ''"
    by (simp add: d)
qed

section \<open>The audit prompt\<close>

text \<open>
  C1. For every string \<open>Q\<close>, the audit prompt holds \<open>Q\<close> as a contiguous substring at the
  designated position, exactly once, and the prompts for two questions \<open>Q\<close> and \<open>Q'\<close> are
  byte-identical outside the substituted region.

  The f-string has exactly one formatted value, the parameter. The designated position
  is byte 524 of the document (counted from 0): the 524 bytes before it and all the bytes
  after the \<open>length Q\<close> bytes of the question are the two constant texts of the f-string,
  whatever the question is.
\<close>

theorem question_format_substitution:
  "names_of question_format_prompt = [''question''] \<and>
   length question_format_text_0 = 524 \<and>
   (\<exists>d d'. question_format str_of globals Q = Inr d \<and>
           question_format str_of globals Q' = Inr d' \<and>
           take 524 d = question_format_text_0 \<and>
           take 524 d' = question_format_text_0 \<and>
           take (length Q) (drop 524 d) = Q \<and>
           take (length Q') (drop 524 d') = Q' \<and>
           drop (524 + length Q) d = question_format_text_1 \<and>
           drop (524 + length Q') d' = question_format_text_1)"
proof -
  have len: "length question_format_text_0 = 524"
    by (simp add: question_format_text_0_def question_format_l050_l057_def
        question_format_l058_a_def em_dash_def)
  have "take 524 (question_format_text_0 @ q @ question_format_text_1) = question_format_text_0 \<and>
        take (length q) (drop 524 (question_format_text_0 @ q @ question_format_text_1)) = q \<and>
        drop (524 + length q) (question_format_text_0 @ q @ question_format_text_1) =
          question_format_text_1" for q
    using len by simp
  then show ?thesis
    using len names_of_question_format question_format_document by blast
qed

text \<open>
  C4. Composing the audit prompt with the question "Can liquidation fees exceed the
  protocol-defined cap?" gives a document whose question line reads exactly that sentence
  and whose failure-output instruction line reads exactly
  \<^verbatim>\<open>#NoVulnerability found for this question.\<close>

  Line 8 of the document (source line 58) is the label of the question, the sentence
  as it was given, and the two blanks that end every line of this template. Line 229
  (source line 279) is the instruction to state the sentinel, and line 230 (source
  line 280) is the sentinel between two backquotes, followed by the same two blanks.
\<close>

theorem question_format_liquidation_fees:
  "\<exists>d. question_format str_of globals ''Can liquidation fees exceed the protocol-defined cap?'' = Inr d \<and>
       split_nl d ! 8 =
         ''**Security Question (scope for this run):** '' @
         ''Can liquidation fees exceed the protocol-defined cap?'' @ ''  '' \<and>
       split_nl d ! 229 =
         ''If **no** valid vulnerability emerges after thorough investigation, state exactly:   '' \<and>
       split_nl d ! 230 = ''`'' @ ''#NoVulnerability found for this question.'' @ ''`  ''"
proof -
  have q: "CHR 0x0A \<notin> set ''Can liquidation fees exceed the protocol-defined cap?''"
    by simp
  show ?thesis
    using question_format_line_8 [OF q] question_format_lines_229_230 [OF q]
    by (simp add: question_format_document)
qed

section \<open>The validation prompt\<close>

text \<open>
  C5. For every string \<open>R\<close>, the validation prompt holds \<open>R\<close> as a contiguous substring,
  and the bytes outside the embedded region do not depend on \<open>R\<close>.

  The f-string has exactly one formatted value, the parameter; the report starts at
  byte 404 of the document, and the bytes before and after it are the two constant
  texts of the f-string.
\<close>

theorem validation_format_substitution:
  "names_of validation_format_prompt = [''report''] \<and>
   length validation_format_text_0 = 404 \<and>
   (\<exists>d. validation_format str_of globals R = Inr d \<and>
        sublist R d \<and>
        take 404 d = validation_format_text_0 \<and>
        take (length R) (drop 404 d) = R \<and>
        drop (404 + length R) d = validation_format_text_1)"
proof -
  have len: "length validation_format_text_0 = 404"
    by (simp add: validation_format_text_0_def validation_format_l357_l362_def)
  have "sublist R (validation_format_text_0 @ R @ validation_format_text_1)"
    by (rule sublist_appendI)
  moreover have
    "take 404 (validation_format_text_0 @ R @ validation_format_text_1) = validation_format_text_0 \<and>
     take (length R) (drop 404 (validation_format_text_0 @ R @ validation_format_text_1)) = R \<and>
     drop (404 + length R) (validation_format_text_0 @ R @ validation_format_text_1) =
       validation_format_text_1"
    using len by simp
  ultimately show ?thesis
    using len names_of_validation_format validation_format_document by blast
qed

section \<open>The question-generation prompt\<close>

text \<open>
  C2. For every string \<open>P\<close>, every reserved path placeholder occurrence in the returned
  document equals \<open>P\<close>, so that no two occurrences disagree; in particular, composing
  with \<^verbatim>\<open>contracts/rujira-ghost-vault/src/state.rs\<close> gives a document in which every
  bracketed path placeholder reads exactly that path, and no other path value stands in
  a placeholder position.

  The reserved placeholders are the formatted values of the f-string. There are
  fourteen, each of them the parameter \<^verbatim>\<open>target_file\<close>, so the returned document is
  the constant text with \<open>P\<close> at every one of the fourteen positions and nothing else at
  any of them. Two of them are bracketed (source lines 903 and 905): the constant text
  before each ends with \<^verbatim>\<open>[File: \<close> and the constant text after it starts with the
  closing bracket, so both tags read \<^verbatim>\<open>[File: P]\<close>. The same is stated at the path
  of the scenario.
\<close>

theorem question_generator_substitution:
  "names_of question_generator_prompt = replicate 14 ''target_file'' \<and>
   question_generator str_of globals P =
     Inr (concat (map (\<lambda>p. case p of Constant s \<Rightarrow> s | FormattedValue name \<Rightarrow> P)
            question_generator_prompt)) \<and>
   question_generator str_of globals P =
     Inr (question_generator_text_0 @ P @ question_generator_text_1 @ P @
          question_generator_text_2 @ P @ question_generator_text_3 @ P @
          question_generator_text_4 @ P @ question_generator_text_5 @ P @
          question_generator_text_6 @ P @ question_generator_text_7 @ P @
          question_generator_text_8 @ P @ question_generator_text_9 @ P @
          question_generator_text_10 @ P @ question_generator_text_11 @ P @
          question_generator_text_12 @ P @ question_generator_text_13 @ P @
          question_generator_text_14) \<and>
   suffix ''[File: '' question_generator_text_6 \<and>
   prefix '']'' question_generator_text_7 \<and>
   suffix ''[File: '' question_generator_text_7 \<and>
   prefix '']'' question_generator_text_8 \<and>
   (\<exists>d. question_generator str_of globals P = Inr d \<and>
        sublist (''[File: '' @ P @ ''] [Function: functionName()]'') d \<and>
        sublist (''[File: '' @ P @ ''] [Function: anotherFunction()]'') d) \<and>
   (\<exists>d. question_generator str_of globals ''contracts/rujira-ghost-vault/src/state.rs'' = Inr d \<and>
        d = concat (map (\<lambda>p. case p of
                               Constant s \<Rightarrow> s
                             | FormattedValue name \<Rightarrow> ''contracts/rujira-ghost-vault/src/state.rs'')
              question_generator_prompt) \<and>
        sublist ''[File: contracts/rujira-ghost-vault/src/state.rs] [Function: functionName()]'' d \<and>
        sublist ''[File: contracts/rujira-ghost-vault/src/state.rs] [Function: anotherFunction()]'' d)"
proof -
  have s6: "suffix ''[File: '' question_generator_text_6"
    unfolding question_generator_text_6_def
    by (rule suffix_appendI) (simp add: question_generator_l903_a_def suffix_def)
  have s7: "suffix ''[File: '' question_generator_text_7"
    unfolding question_generator_text_7_def
    by (rule suffix_appendI) (simp add: question_generator_l905_a_def suffix_def)
  have p7: "prefix '']'' question_generator_text_7"
    by (simp add: question_generator_text_7_def question_generator_l903_l904_def)
  have p8: "prefix '']'' question_generator_text_8"
    by (simp add: question_generator_text_8_def question_generator_l905_b_def)
  have f7: "prefix ''] [Function: functionName()]'' question_generator_text_7"
    by (simp add: question_generator_text_7_def question_generator_l903_l904_def)
  have f8: "prefix ''] [Function: anotherFunction()]'' question_generator_text_8"
    by (simp add: question_generator_text_8_def question_generator_l905_b_def)
  from s6 obtain a6 where a6: "question_generator_text_6 = a6 @ ''[File: ''"
    by (auto simp: suffix_def)
  from s7 obtain a7 where a7: "question_generator_text_7 = a7 @ ''[File: ''"
    by (auto simp: suffix_def)
  from f7 obtain b7 where b7: "question_generator_text_7 = ''] [Function: functionName()]'' @ b7"
    by (auto simp: prefix_def)
  from f8 obtain b8 where b8: "question_generator_text_8 = ''] [Function: anotherFunction()]'' @ b8"
    by (auto simp: prefix_def)
  define doc :: "string \<Rightarrow> string" where
    "doc p = question_generator_text_0 @ p @ question_generator_text_1 @ p @
          question_generator_text_2 @ p @ question_generator_text_3 @ p @
          question_generator_text_4 @ p @ question_generator_text_5 @ p @
          question_generator_text_6 @ p @ question_generator_text_7 @ p @
          question_generator_text_8 @ p @ question_generator_text_9 @ p @
          question_generator_text_10 @ p @ question_generator_text_11 @ p @
          question_generator_text_12 @ p @ question_generator_text_13 @ p @
          question_generator_text_14" for p
  have run: "question_generator str_of globals p = Inr (doc p)" for p
    unfolding doc_def by (rule question_generator_document)
  have cc: "concat (map (\<lambda>x. case x of Constant s \<Rightarrow> s | FormattedValue name \<Rightarrow> p)
      question_generator_prompt) = doc p" for p
    by (simp add: question_generator_prompt_def doc_def)
  have "doc p = (question_generator_text_0 @ p @ question_generator_text_1 @ p @
          question_generator_text_2 @ p @ question_generator_text_3 @ p @
          question_generator_text_4 @ p @ question_generator_text_5 @ p @ a6) @
          (''[File: '' @ p @ ''] [Function: functionName()]'') @ (b7 @ p @
          question_generator_text_8 @ p @ question_generator_text_9 @ p @
          question_generator_text_10 @ p @ question_generator_text_11 @ p @
          question_generator_text_12 @ p @ question_generator_text_13 @ p @
          question_generator_text_14)" for p
    unfolding doc_def by (simp add: a6 b7)
  then have t1: "sublist (''[File: '' @ p @ ''] [Function: functionName()]'') (doc p)" for p
    using sublist_appendI by metis
  have "doc p = (question_generator_text_0 @ p @ question_generator_text_1 @ p @
          question_generator_text_2 @ p @ question_generator_text_3 @ p @
          question_generator_text_4 @ p @ question_generator_text_5 @ p @
          question_generator_text_6 @ p @ a7) @
          (''[File: '' @ p @ ''] [Function: anotherFunction()]'') @ (b8 @ p @
          question_generator_text_9 @ p @
          question_generator_text_10 @ p @ question_generator_text_11 @ p @
          question_generator_text_12 @ p @ question_generator_text_13 @ p @
          question_generator_text_14)" for p
    unfolding doc_def by (simp add: a7 b8)
  then have t2: "sublist (''[File: '' @ p @ ''] [Function: anotherFunction()]'') (doc p)" for p
    using sublist_appendI by metis
  have c1: "question_generator str_of globals P =
     Inr (concat (map (\<lambda>p. case p of Constant s \<Rightarrow> s | FormattedValue name \<Rightarrow> P)
            question_generator_prompt))"
    by (simp only: run cc)
  have c2: "\<exists>d. question_generator str_of globals P = Inr d \<and>
        sublist (''[File: '' @ P @ ''] [Function: functionName()]'') d \<and>
        sublist (''[File: '' @ P @ ''] [Function: anotherFunction()]'') d"
    using run [of P] t1 [of P] t2 [of P] by blast
  have c3: "\<exists>d. question_generator str_of globals ''contracts/rujira-ghost-vault/src/state.rs'' = Inr d \<and>
        d = concat (map (\<lambda>p. case p of
                               Constant s \<Rightarrow> s
                             | FormattedValue name \<Rightarrow> ''contracts/rujira-ghost-vault/src/state.rs'')
              question_generator_prompt) \<and>
        sublist ''[File: contracts/rujira-ghost-vault/src/state.rs] [Function: functionName()]'' d \<and>
        sublist ''[File: contracts/rujira-ghost-vault/src/state.rs] [Function: anotherFunction()]'' d"
    using run [of "''contracts/rujira-ghost-vault/src/state.rs''"]
      cc [of "''contracts/rujira-ghost-vault/src/state.rs''"]
      t1 [of "''contracts/rujira-ghost-vault/src/state.rs''"]
      t2 [of "''contracts/rujira-ghost-vault/src/state.rs''"]
    by simp
  show ?thesis
    using s6 s7 p7 p8 c1 c2 c3 names_of_question_generator
      question_generator_document [of str_of globals P]
    by blast
qed

section \<open>All three composers\<close>

text \<open>
  C6. Each composer is deterministic: two calls of a composer on the same input give
  byte-identical documents.

  The only things a call could read besides its input are the module's globals and
  the interpreter's \<^verbatim>\<open>str\<close>; whatever they are at the first call (\<open>globals\<close>, \<open>str_of\<close>)
  and at the second (\<open>globals'\<close>, \<open>str_of'\<close>), the two results are equal.
\<close>

theorem composers_deterministic:
  "question_format str_of globals x = question_format str_of' globals' x \<and>
   validation_format str_of globals x = validation_format str_of' globals' x \<and>
   question_generator str_of globals x = question_generator str_of' globals' x"
  by (simp add: question_format_document validation_format_document question_generator_document)

text \<open>
  C7. No composer's output depends on the corpus or on the registry: whatever the
  module's names \<^verbatim>\<open>questions\<close> and \<^verbatim>\<open>questions_generator\<close> are bound to (or if they are
  unbound), each composer returns the same document. The only name an f-string reads
  is the parameter of its function.
\<close>

theorem composers_ignore_corpus_and_registry:
  "question_format str_of (globals(''questions'' := corpus, ''questions_generator'' := registry)) x =
     question_format str_of globals x \<and>
   validation_format str_of (globals(''questions'' := corpus, ''questions_generator'' := registry)) x =
     validation_format str_of globals x \<and>
   question_generator str_of (globals(''questions'' := corpus, ''questions_generator'' := registry)) x =
     question_generator str_of globals x \<and>
   set (names_of question_format_prompt) = {''question''} \<and>
   set (names_of validation_format_prompt) = {''report''} \<and>
   set (names_of question_generator_prompt) = {''target_file''}"
proof -
  have l: "set (names_of ps) \<subseteq> dom [n \<mapsto> PyStr x] \<Longrightarrow>
      JoinedStr str_of g [n \<mapsto> PyStr x] ps = JoinedStr str_of g' [n \<mapsto> PyStr x] ps"
    for ps n g g'
    using JoinedStr_locals [of ps "[n \<mapsto> PyStr x]" str_of g g'] by auto
  show ?thesis
    by (simp add: question_format_def validation_format_def question_generator_def l
        names_of_question_format names_of_validation_format names_of_question_generator)
qed

text \<open>
  C8. Every composer is total: it takes any text, the empty string too, and returns a
  document without raising.
\<close>

theorem composers_total:
  "(\<exists>d. question_format str_of globals x = Inr d) \<and>
   (\<exists>d. validation_format str_of globals x = Inr d) \<and>
   (\<exists>d. question_generator str_of globals x = Inr d) \<and>
   question_format str_of globals [] = Inr (question_format_text_0 @ question_format_text_1) \<and>
   validation_format str_of globals [] =
     Inr (validation_format_text_0 @ validation_format_text_1) \<and>
   (\<exists>d. question_generator str_of globals [] = Inr d)"
proof -
  have l: "set (names_of ps) \<subseteq> dom [n \<mapsto> PyStr y] \<Longrightarrow>
      \<exists>d. JoinedStr str_of globals [n \<mapsto> PyStr y] ps = Inr d" for ps n y
    using JoinedStr_locals [of ps "[n \<mapsto> PyStr y]" str_of globals globals] by auto
  have "\<exists>d. question_format str_of globals y = Inr d" for y
    unfolding question_format_def by (rule l) (simp add: names_of_question_format)
  moreover have "\<exists>d. validation_format str_of globals y = Inr d" for y
    unfolding validation_format_def by (rule l) (simp add: names_of_validation_format)
  moreover have "\<exists>d. question_generator str_of globals y = Inr d" for y
    unfolding question_generator_def by (rule l) (simp add: names_of_question_generator)
  ultimately show ?thesis
    using question_format_document [of str_of globals "[]"]
      validation_format_document [of str_of globals "[]"]
    by simp
qed

section \<open>The corpus loader\<close>

text \<open>
  C3, as the specification states it. If the resource exists and parses as the
  expected shape, the loader returns the stored sequence as it is, in its order; on any
  failure whatsoever (the resource is absent, unreadable or malformed) it returns an
  empty sequence; and it never raises.

  A resource that can be read and decodes as JSON, but not as a sequence of questions,
  is malformed in the sense of the claim, and the loader does not return an empty
  sequence for it: the \<^verbatim>\<open>try\<close> body returns whatever \<^verbatim>\<open>json.load\<close> gives, and nothing
  in the module looks at the shape of that value. On a resource that holds the JSON
  object with the one member \<^verbatim>\<open>count\<close>, of value 2, the loader returns that object.
\<close>

theorem get_questions_wrong_shape_counterexample:
  "\<not> question_sequence (PyDict [(''count'', PyInt 2)]) \<and>
   get_questions (\<lambda>path. Inr ''{\"count\": 2}'') (\<lambda>text. Inr (PyDict [(''count'', PyInt 2)])) =
     Inr (PyDict [(''count'', PyInt 2)]) \<and>
   get_questions (\<lambda>path. Inr ''{\"count\": 2}'') (\<lambda>text. Inr (PyDict [(''count'', PyInt 2)])) \<noteq>
     Inr (PyList [])"
  by (simp add: get_questions_def question_sequence_def)

text \<open>
  C3, amended. If the resource can be opened and read and its text decodes as JSON,
  the loader returns the decoded value as it is, whatever its shape; a stored sequence
  of questions is therefore returned as it is, in its order. If opening or reading the
  resource raises (it is absent or unreadable) or decoding its text raises (it is not
  JSON), the loader returns the empty sequence. The loader never raises.
\<close>

theorem get_questions_contract:
  "(open_read ''all_questions.json'' = Inr contents \<and> json_loads contents = Inr v \<longrightarrow>
      get_questions open_read json_loads = Inr v) \<and>
   (open_read ''all_questions.json'' = Inr contents \<and>
    json_loads contents = Inr (PyList (map PyStr qs)) \<longrightarrow>
      question_sequence (PyList (map PyStr qs)) \<and>
      get_questions open_read json_loads = Inr (PyList (map PyStr qs))) \<and>
   (open_read ''all_questions.json'' = Inl e \<longrightarrow>
      get_questions open_read json_loads = Inr (PyList [])) \<and>
   (open_read ''all_questions.json'' = Inr contents \<and> json_loads contents = Inl e \<longrightarrow>
      get_questions open_read json_loads = Inr (PyList [])) \<and>
   (\<exists>v. get_questions open_read json_loads = Inr v)"
proof -
  have "question_sequence (PyList (map PyStr qs))"
    by (simp add: question_sequence_def list_all_iff)
  then show ?thesis
    by (auto simp: get_questions_def split: sum.splits)
qed

theorem get_questions_contract_witness:
  "get_questions (\<lambda>path. Inr ''[\"Can fees exceed the cap?\", \"Is LTV checked?\"]'')
     (\<lambda>text. Inr (PyList (map PyStr [''Can fees exceed the cap?'', ''Is LTV checked?'']))) =
     Inr (PyList [PyStr ''Can fees exceed the cap?'', PyStr ''Is LTV checked?'']) \<and>
   get_questions (\<lambda>path. Inr ''[1, null]'') (\<lambda>text. Inr (PyList [PyInt 1, PyNone])) =
     Inr (PyList [PyInt 1, PyNone]) \<and>
   get_questions (\<lambda>path. Inl FileNotFoundError) (\<lambda>text. Inl JSONDecodeError) =
     Inr (PyList []) \<and>
   get_questions (\<lambda>path. Inl PermissionError) (\<lambda>text. Inl JSONDecodeError) =
     Inr (PyList []) \<and>
   get_questions (\<lambda>path. Inr ''[\"Can fees exceed'') (\<lambda>text. Inl JSONDecodeError) =
     Inr (PyList [])"
  using get_questions_contract [where
      open_read = "\<lambda>path. Inr ''[\"Can fees exceed the cap?\", \"Is LTV checked?\"]''" and
      contents = "''[\"Can fees exceed the cap?\", \"Is LTV checked?\"]''" and
      json_loads = "\<lambda>text. Inr (PyList (map PyStr [''Can fees exceed the cap?'', ''Is LTV checked?'']))" and
      v = "PyList (map PyStr [''Can fees exceed the cap?'', ''Is LTV checked?''])" and
      qs = "[''Can fees exceed the cap?'', ''Is LTV checked?'']" and e = JSONDecodeError]
    get_questions_contract [where
      open_read = "\<lambda>path. Inr ''[1, null]''" and contents = "''[1, null]''" and
      json_loads = "\<lambda>text. Inr (PyList [PyInt 1, PyNone])" and
      v = "PyList [PyInt 1, PyNone]" and qs = "[]" and e = JSONDecodeError]
    get_questions_contract [where
      open_read = "\<lambda>path. Inl FileNotFoundError" and contents = "[]" and
      json_loads = "\<lambda>text. Inl JSONDecodeError" and v = PyNone and qs = "[]" and
      e = FileNotFoundError]
    get_questions_contract [where
      open_read = "\<lambda>path. Inl PermissionError" and contents = "[]" and
      json_loads = "\<lambda>text. Inl JSONDecodeError" and v = PyNone and qs = "[]" and
      e = PermissionError]
    get_questions_contract [where
      open_read = "\<lambda>path. Inr ''[\"Can fees exceed''" and contents = "''[\"Can fees exceed''" and
      json_loads = "\<lambda>text. Inl JSONDecodeError" and v = PyNone and qs = "[]" and
      e = JSONDecodeError]
  by simp

text \<open>
  C9. If the resource exists, is readable and parses as JSON, the loader returns the
  parsed value as it is, whatever its type: a value that is not a sequence of
  questions (an object, a number) is returned, not replaced by the empty sequence.
\<close>

theorem get_questions_any_json:
  "open_read ''all_questions.json'' = Inr text \<Longrightarrow> json_loads text = Inr v \<Longrightarrow>
     get_questions open_read json_loads = Inr v \<and>
     (v \<noteq> PyList [] \<longrightarrow> get_questions open_read json_loads \<noteq> Inr (PyList []))"
  by (simp add: get_questions_def)

theorem get_questions_any_json_witness:
  "get_questions (\<lambda>path. Inr ''{\"questions\": 5}'') (\<lambda>text. Inr (PyDict [(''questions'', PyInt 5)])) =
     Inr (PyDict [(''questions'', PyInt 5)]) \<and>
   get_questions (\<lambda>path. Inr ''{\"questions\": 5}'') (\<lambda>text. Inr (PyDict [(''questions'', PyInt 5)])) \<noteq>
     Inr (PyList []) \<and>
   get_questions (\<lambda>path. Inr ''5'') (\<lambda>text. Inr (PyInt 5)) = Inr (PyInt 5)"
  using get_questions_any_json [of "\<lambda>path. Inr ''{\"questions\": 5}''" "''{\"questions\": 5}''"
      "\<lambda>text. Inr (PyDict [(''questions'', PyInt 5)])" "PyDict [(''questions'', PyInt 5)]"]
    get_questions_any_json [of "\<lambda>path. Inr ''5''" "''5''" "\<lambda>text. Inr (PyInt 5)" "PyInt 5"]
  by simp

section \<open>The registry\<close>

text \<open>
  C10. The registry of target files is a list of exactly 19 pairwise distinct, non-empty
  paths, each of which begins with one of the three directories in scope.
\<close>

theorem questions_generator_registry:
  "length questions_generator = 19 \<and>
   distinct questions_generator \<and>
   list_all in_scope questions_generator"
  by (simp add: questions_generator_def in_scope_def)

end
